theory Spec2Isabelle
  imports Main "HOL-Library.Word"
begin

section \<open>The VITS generator of \<open>espnet2/gan_svs/vits/generator.py\<close>\<close>

text \<open>
  The module wires a score encoder, a posterior encoder, a flow and a vocoder into a
  training pass (\<open>forward\<close>) and an inference pass (\<open>inference\<close>); it also keeps the
  path generator \<open>_generate_path\<close>. The networks themselves live in other files; here
  they are fields of the generator, functions that may raise and that may consume
  random numbers. Floating-point arithmetic is not interpreted: the scalar operations
  are parameters (the record \<open>lib\<close>), so every statement holds for IEEE arithmetic as for any
  other.
\<close>

subsection \<open>Exceptions\<close>

datatype error =
    TypeError
  | AttributeError
  | AssertionError
  | RuntimeError
  | ZeroDivisionError
  | OtherError string

text \<open>Sequencing of pure steps that may raise.\<close>

definition seq :: "error + 'x \<Rightarrow> ('x \<Rightarrow> error + 'y) \<Rightarrow> error + 'y" where
  "seq v f = (case v of Inl e \<Rightarrow> Inl e | Inr x \<Rightarrow> f x)"

subsection \<open>Tensors\<close>

text \<open>
  A tensor carries its shape and its entries. \<open>tensor2\<close> is a \<open>(B, T)\<close> tensor, one
  list per batch row; \<open>tensor3\<close> is a \<open>(B, C, T)\<close> tensor. The shape is stored because
  an empty batch still has a width in the source (\<open>label_xml.shape[1]\<close>).
\<close>

record 'a tensor2 =
  rows :: nat
  cols :: nat
  vals2 :: "'a list list"

record 'a tensor3 =
  dim0 :: nat
  dim1 :: nat
  dim2 :: nat
  vals3 :: "'a list list list"

definition wf2 :: "'a tensor2 \<Rightarrow> bool" where
  "wf2 t = (length (vals2 t) = rows t \<and> list_all (\<lambda>r. length r = cols t) (vals2 t))"

definition wf3 :: "'a tensor3 \<Rightarrow> bool" where
  "wf3 t = (length (vals3 t) = dim0 t \<and>
     list_all (\<lambda>m. length m = dim1 t \<and> list_all (\<lambda>r. length r = dim2 t) m) (vals3 t))"

text \<open>
  \<open>F.pad(input=t, pad=(0, n, 0, 0), mode="constant", value=0)\<close>: the last axis grows
  by \<open>n\<close> zeros on the right; a negative \<open>n\<close> crops instead. The batch axis is padded
  by nothing.
\<close>

definition pad_row :: "int \<Rightarrow> int list \<Rightarrow> int list" where
  "pad_row n r = (if 0 \<le> n then r @ replicate (nat n) 0 else take (length r - nat (- n)) r)"

definition pad_right :: "int \<Rightarrow> int tensor2 \<Rightarrow> int tensor2" where
  "pad_right n t = \<lparr> rows = rows t, cols = nat (int (cols t) + n), vals2 = map (pad_row n) (vals2 t) \<rparr>"

text \<open>\<open>t[:, :k]\<close> for a shape value \<open>k\<close> (never negative).\<close>

definition slice_cols :: "nat \<Rightarrow> 'a tensor2 \<Rightarrow> 'a tensor2" where
  "slice_cols k t = \<lparr> rows = rows t, cols = min (cols t) k, vals2 = map (take k) (vals2 t) \<rparr>"

subsection \<open>The caller's buffers and the random number generator\<close>

text \<open>
  Length tensors are objects the caller owns and \<open>forward\<close> writes to one of them, so
  they live in a heap and are passed by address. The generator of random numbers is a
  state of type \<open>'r\<close> that every stochastic call advances.
\<close>

type_synonym addr = nat

record 'r world =
  heap :: "addr \<Rightarrow> int list"
  rng :: 'r

type_synonym ('r, 'x) prog = "'r world \<Rightarrow> (error + 'x) \<times> 'r world"

definition ret :: "'x \<Rightarrow> ('r, 'x) prog" where
  "ret x = (\<lambda>w. (Inr x, w))"

definition raise :: "error \<Rightarrow> ('r, 'x) prog" where
  "raise e = (\<lambda>w. (Inl e, w))"

definition bnd :: "('r, 'x) prog \<Rightarrow> ('x \<Rightarrow> ('r, 'y) prog) \<Rightarrow> ('r, 'y) prog" where
  "bnd m f = (\<lambda>w. case m w of (Inl e, w') \<Rightarrow> (Inl e, w') | (Inr x, w') \<Rightarrow> f x w')"

text \<open>A pure step that may raise.\<close>

definition lift :: "error + 'x \<Rightarrow> ('r, 'x) prog" where
  "lift v = (\<lambda>w. (v, w))"

text \<open>A call of a network: it may raise and it advances the random state.\<close>

definition call :: "('r \<Rightarrow> (error + 'x) \<times> 'r) \<Rightarrow> ('r, 'x) prog" where
  "call c = (\<lambda>w. case c (rng w) of (v, r') \<Rightarrow> (v, w\<lparr> rng := r' \<rparr>))"

definition read_buf :: "addr \<Rightarrow> ('r, int list) prog" where
  "read_buf a = (\<lambda>w. (Inr (heap w a), w))"

definition write_buf :: "addr \<Rightarrow> int list \<Rightarrow> ('r, unit) prog" where
  "write_buf a v = (\<lambda>w. (Inr (), w\<lparr> heap := (heap w)(a := v) \<rparr>))"

subsection \<open>Lines 365--390 of \<open>forward\<close>: the xml streams meet the feature length\<close>

text \<open>
  \<^verbatim>\<open>for i, length in enumerate(label_xml_lengths):
      if length == label_xml.shape[1]:
          label_xml_lengths[i] = feats.shape[2]\<close>
  Iterating a tensor walks the elements it had when the loop began (\<open>unbind\<close>), so the
  loop runs over a snapshot \<open>ls\<close> while it writes into the buffer \<open>buf\<close>. With
  \<open>label_xml = None\<close> the first iteration raises on \<open>label_xml.shape\<close>; an empty
  \<open>label_xml_lengths\<close> never gets there.
\<close>

fun correct_lengths ::
  "int tensor2 option \<Rightarrow> nat \<Rightarrow> int list \<Rightarrow> nat \<Rightarrow> int list \<Rightarrow> error + int list" where
  "correct_lengths label_xml T [] i buf = Inr buf"
| "correct_lengths label_xml T (l # ls) i buf =
     (case label_xml of
        None \<Rightarrow> Inl AttributeError
      | Some t \<Rightarrow>
          correct_lengths label_xml T ls (Suc i)
            (if l = int (cols t) then buf[i := int T] else buf))"

text \<open>
  The branch is chosen by the width of \<open>label_xml\<close> alone; \<open>midi_xml\<close> and \<open>beat_xml\<close>
  are padded by their own distance to the feature length. \<open>None.shape\<close> is an
  AttributeError, \<open>None[:, :k]\<close> a TypeError.
\<close>

definition pad_to :: "nat \<Rightarrow> int tensor2 option \<Rightarrow> error + int tensor2" where
  "pad_to T x = (case x of None \<Rightarrow> Inl AttributeError
                 | Some t \<Rightarrow> Inr (pad_right (int T - int (cols t)) t))"

definition cut_to :: "nat \<Rightarrow> int tensor2 option \<Rightarrow> error + int tensor2" where
  "cut_to T x = (case x of None \<Rightarrow> Inl TypeError | Some t \<Rightarrow> Inr (slice_cols T t))"

definition pad_or_truncate ::
  "nat \<Rightarrow> int tensor2 option \<Rightarrow> int tensor2 option \<Rightarrow> int tensor2 option \<Rightarrow>
   error + (int tensor2 \<times> int tensor2 \<times> int tensor2)" where
  "pad_or_truncate T label_xml midi_xml beat_xml =
     (case label_xml of
        None \<Rightarrow> Inl AttributeError
      | Some lx \<Rightarrow>
          if cols lx < T then
            seq (pad_to T label_xml) (\<lambda>l'.
            seq (pad_to T midi_xml) (\<lambda>m'.
            seq (pad_to T beat_xml) (\<lambda>b'. Inr (l', m', b'))))
          else
            seq (cut_to T label_xml) (\<lambda>l'.
            seq (cut_to T midi_xml) (\<lambda>m'.
            seq (cut_to T beat_xml) (\<lambda>b'. Inr (l', m', b')))))"

text \<open>
  The whole block. \<open>label_xml_lengths = None\<close> cannot be iterated (TypeError). The
  loop can raise only in its first iteration, before it has written anything, so its
  writes are stored in the caller's buffer in one step, after the loop and before the
  streams are touched. The block yields the three streams and the lengths the encoder
  will see.
\<close>

definition reconcile_xml ::
  "nat \<Rightarrow> int tensor2 option \<Rightarrow> addr option \<Rightarrow> int tensor2 option \<Rightarrow> int tensor2 option \<Rightarrow>
   ('r, int tensor2 \<times> int list \<times> int tensor2 \<times> int tensor2) prog" where
  "reconcile_xml T label_xml label_xml_lengths midi_xml beat_xml =
     (case label_xml_lengths of
        None \<Rightarrow> raise TypeError
      | Some a \<Rightarrow>
          bnd (read_buf a) (\<lambda>ls.
          bnd (lift (correct_lengths label_xml T ls 0 ls)) (\<lambda>ls'.
          bnd (write_buf a ls') (\<lambda>_.
          bnd (lift (pad_or_truncate T label_xml midi_xml beat_xml)) (\<lambda>(l', m', b').
          ret (l', ls', m', b'))))))"

subsection \<open>Floating-point tensors\<close>

text \<open>
  What the module takes from \<open>torch\<close> and from \<open>espnet2.gan_tts.utils\<close>: the scalar
  arithmetic behind \<open>+\<close>, \<open>*\<close> and \<open>torch.exp\<close>, \<open>F.normalize\<close>, one standard-normal
  draw, and \<open>get_random_segments\<close>.
\<close>

record ('a, 'r) lib =
  fadd :: "'a \<Rightarrow> 'a \<Rightarrow> 'a"
  fmul :: "'a \<Rightarrow> 'a \<Rightarrow> 'a"
  fexp :: "'a \<Rightarrow> 'a"
  normalize :: "'a tensor2 \<Rightarrow> 'a tensor2"
  randn :: "'r \<Rightarrow> 'a \<times> 'r"
  get_random_segments ::
    "'a tensor3 \<Rightarrow> int list \<Rightarrow> int \<Rightarrow> 'r \<Rightarrow> (error + 'a tensor3 \<times> int list) \<times> 'r"

text \<open>
  Broadcasting of a binary operator: on each axis the sizes agree or one of them is 1,
  and the axis of size 1 is repeated; any other pair of sizes is a RuntimeError.
\<close>

definition bdim :: "nat \<Rightarrow> nat \<Rightarrow> nat option" where
  "bdim n m = (if n = m then Some n else if n = 1 then Some m
               else if m = 1 then Some n else None)"

definition bzip :: "('x \<Rightarrow> 'y \<Rightarrow> 'z) \<Rightarrow> nat \<Rightarrow> nat \<Rightarrow> 'x list \<Rightarrow> 'y list \<Rightarrow> 'z list" where
  "bzip f n m xs ys =
     (if n = m then map2 f xs ys
      else if n = 1 then map (f (hd xs)) ys
      else map (\<lambda>x. f x (hd ys)) xs)"

definition broadcast3 ::
  "('a \<Rightarrow> 'a \<Rightarrow> 'a) \<Rightarrow> 'a tensor3 \<Rightarrow> 'a tensor3 \<Rightarrow> error + 'a tensor3" where
  "broadcast3 f a b =
     (case (bdim (dim0 a) (dim0 b), bdim (dim1 a) (dim1 b), bdim (dim2 a) (dim2 b)) of
        (Some n0, Some n1, Some n2) \<Rightarrow>
          Inr \<lparr> dim0 = n0, dim1 = n1, dim2 = n2,
                vals3 = bzip (bzip (bzip f (dim2 a) (dim2 b)) (dim1 a) (dim1 b))
                          (dim0 a) (dim0 b) (vals3 a) (vals3 b) \<rparr>
      | _ \<Rightarrow> Inl RuntimeError)"

definition map3 :: "('a \<Rightarrow> 'a) \<Rightarrow> 'a tensor3 \<Rightarrow> 'a tensor3" where
  "map3 f t = t\<lparr> vals3 := map (map (map f)) (vals3 t) \<rparr>"

text \<open>\<open>t.unsqueeze(-1)\<close> on a \<open>(B, C)\<close> tensor and \<open>v.unsqueeze(0)\<close> on a vector.\<close>

definition unsqueeze_last :: "'a tensor2 \<Rightarrow> 'a tensor3" where
  "unsqueeze_last t =
     \<lparr> dim0 = rows t, dim1 = cols t, dim2 = 1, vals3 = map (map (\<lambda>v. [v])) (vals2 t) \<rparr>"

definition unsqueeze_first :: "'a list \<Rightarrow> 'a tensor2" where
  "unsqueeze_first v = \<lparr> rows = 1, cols = length v, vals2 = [v] \<rparr>"

text \<open>
  \<open>wav.squeeze(1)\<close> drops the channel axis when its size is 1 and leaves the tensor
  as it is otherwise, so the result has two or three axes.
\<close>

datatype 'a tensor = T2 "'a tensor2" | T3 "'a tensor3"

definition squeeze1 :: "'a tensor3 \<Rightarrow> 'a tensor" where
  "squeeze1 t =
     (if dim1 t = 1 then T2 \<lparr> rows = dim0 t, cols = dim2 t, vals2 = map concat (vals3 t) \<rparr>
      else T3 t)"

text \<open>
  \<open>t[:, :, :max_len]\<close> with Python's slice rules: \<open>None\<close> keeps everything, a
  non-negative bound keeps that many frames, a negative bound drops frames from the end.
\<close>

definition py_stop :: "nat \<Rightarrow> int option \<Rightarrow> nat" where
  "py_stop n m = (case m of None \<Rightarrow> n
                  | Some k \<Rightarrow> if 0 \<le> k then min n (nat k) else nat (int n + k))"

definition slice_time :: "int option \<Rightarrow> 'a tensor3 \<Rightarrow> 'a tensor3" where
  "slice_time m t =
     \<lparr> dim0 = dim0 t, dim1 = dim1 t, dim2 = py_stop (dim2 t) m,
       vals3 = map (map (take (py_stop (dim2 t) m))) (vals3 t) \<rparr>"

text \<open>\<open>torch.randn_like(t)\<close>: one draw per entry, in storage order.\<close>

fun draws :: "('r \<Rightarrow> 'a \<times> 'r) \<Rightarrow> nat \<Rightarrow> 'r \<Rightarrow> 'a list \<times> 'r" where
  "draws d 0 r = ([], r)"
| "draws d (Suc n) r = (case d r of (v, r') \<Rightarrow> case draws d n r' of (vs, r'') \<Rightarrow> (v # vs, r''))"

definition randn_like :: "('a, 'r) lib \<Rightarrow> 'a tensor3 \<Rightarrow> 'r \<Rightarrow> (error + 'a tensor3) \<times> 'r" where
  "randn_like L t r =
     (case draws (draws (draws (randn L) (dim2 t)) (dim1 t)) (dim0 t) r of
        (vs, r') \<Rightarrow> (Inr \<lparr> dim0 = dim0 t, dim1 = dim1 t, dim2 = dim2 t, vals3 = vs \<rparr>, r'))"

subsection \<open>The generator object\<close>

text \<open>
  The networks are objects of classes defined elsewhere. A network is a function that
  may raise; the ones with dropout or sampling also advance the random state. Their
  arguments are passed as the source passes them, \<open>None\<close> included.
\<close>

type_synonym ('a, 'r) text_encoder_net =
  "int tensor2 option \<Rightarrow> int list option \<Rightarrow> int tensor2 option \<Rightarrow> int tensor2 option \<Rightarrow>
   int tensor2 option \<Rightarrow> 'r \<Rightarrow> (error + 'a tensor3 \<times> 'a tensor3 \<times> 'a tensor3 \<times> 'a tensor3) \<times> 'r"

type_synonym ('a, 'r) posterior_encoder_net =
  "'a tensor3 option \<Rightarrow> int list option \<Rightarrow> 'a tensor3 option \<Rightarrow> 'r \<Rightarrow>
   (error + 'a tensor3 \<times> 'a tensor3 \<times> 'a tensor3 \<times> 'a tensor3) \<times> 'r"

type_synonym ('a, 'r) flow_net =
  "'a tensor3 \<Rightarrow> 'a tensor3 \<Rightarrow> 'a tensor3 option \<Rightarrow> bool \<Rightarrow> 'r \<Rightarrow> (error + 'a tensor3) \<times> 'r"

type_synonym ('a, 'r) decoder_net =
  "'a tensor3 \<Rightarrow> 'a tensor3 option \<Rightarrow> 'r \<Rightarrow> (error + 'a tensor3) \<times> 'r"

type_synonym ('a, 'r) duration_net =
  "'a tensor3 \<Rightarrow> 'a tensor3 \<Rightarrow> 'a tensor3 option \<Rightarrow> 'r \<Rightarrow> (error + 'a tensor3) \<times> 'r"

type_synonym 'a projection_net = "'a tensor3 \<Rightarrow> 'a tensor3 \<Rightarrow> error + 'a tensor3 \<times> 'a tensor3"

type_synonym 'a regulator_net =
  "'a tensor3 \<Rightarrow> int tensor2 \<Rightarrow> int tensor2 \<Rightarrow> int list \<Rightarrow> error + 'a tensor3 \<times> int tensor2 \<times> int list"

type_synonym 'a path_search = "'a tensor3 \<Rightarrow> 'a tensor3 \<Rightarrow> error + 'a tensor3"

type_synonym 'a embedding_net = "int list \<Rightarrow> error + 'a tensor2"

type_synonym 'a linear_net = "'a tensor2 \<Rightarrow> error + 'a tensor2"

text \<open>
  The attributes \<open>__init__\<close> sets. \<open>global_emb\<close>, \<open>spemb_proj\<close> and \<open>lang_emb\<close> exist
  only when their feature is configured: \<open>None\<close> stands for a missing attribute, whose
  access is an AttributeError.
\<close>

record ('a, 'r) generator =
  self_segment_size :: int
  text_encoder :: "('a, 'r) text_encoder_net"
  decoder :: "('a, 'r) decoder_net"
  posterior_encoder :: "('a, 'r) posterior_encoder_net"
  flow :: "('a, 'r) flow_net"
  project :: "'a projection_net"
  self_use_sdp :: bool
  duration_predictor :: "('a, 'r) duration_net"
  lr :: "'a regulator_net"
  upsample_factor :: int
  self_spks :: "int option"
  global_emb :: "'a embedding_net option"
  self_spk_embed_dim :: "int option"
  spemb_proj :: "'a linear_net option"
  self_langs :: "int option"
  lang_emb :: "'a embedding_net option"
  maximum_path :: "'a path_search"

subsection \<open>\<open>__init__\<close>\<close>

text \<open>
  The arguments the constructor reads itself. The remaining hyper-parameters are only
  handed on to the constructors of the networks, which are given below as functions
  of the configuration.
\<close>

record config =
  hidden_channels :: int
  spks :: "int option"
  langs :: "int option"
  spk_embed_dim :: "int option"
  global_channels :: int
  segment_size :: int
  decoder_upsample_scales :: "int list"
  use_sdp :: bool

text \<open>The classes and the function the constructor instantiates or imports.\<close>

record ('a, 'r) classes =
  TextEncoder :: "config \<Rightarrow> error + ('a, 'r) text_encoder_net"
  HiFiGANGenerator :: "config \<Rightarrow> error + ('a, 'r) decoder_net"
  PosteriorEncoder :: "config \<Rightarrow> error + ('a, 'r) posterior_encoder_net"
  ResidualAffineCouplingBlock :: "config \<Rightarrow> error + ('a, 'r) flow_net"
  Projection :: "int \<Rightarrow> int \<Rightarrow> error + 'a projection_net"
  StochasticDurationPredictor :: "config \<Rightarrow> error + ('a, 'r) duration_net"
  DurationPredictor :: "config \<Rightarrow> error + ('a, 'r) duration_net"
  LengthRegulator :: "error + 'a regulator_net"
  Embedding :: "int \<Rightarrow> int \<Rightarrow> 'a embedding_net"
  Linear :: "int \<Rightarrow> int \<Rightarrow> 'a linear_net"
  import_maximum_path :: "error + 'a path_search"

text \<open>
  \<open>int(np.prod(decoder_upsample_scales))\<close>: numpy multiplies a list of Python integers
  as 64-bit signed integers, so the product wraps around. (A scale that is itself
  outside the 64-bit range takes numpy elsewhere; such a list is not modelled.)
\<close>

definition np_prod :: "int list \<Rightarrow> int" where
  "np_prod xs = sint (word_of_int (prod_list xs) :: 64 word)"

text \<open>
  \<open>if v is not None and v > k: assert global_channels > 0\<close>; the layer is built only
  behind the assertion.
\<close>

definition guarded :: "int option \<Rightarrow> int \<Rightarrow> int \<Rightarrow> (int \<Rightarrow> 'l) \<Rightarrow> error + (int option \<times> 'l option)" where
  "guarded v k gc layer =
     (case v of
        None \<Rightarrow> Inr (None, None)
      | Some n \<Rightarrow>
          if k < n then (if 0 < gc then Inr (Some n, Some (layer n)) else Inl AssertionError)
          else Inr (None, None))"

definition init :: "('a, 'r) classes \<Rightarrow> config \<Rightarrow> error + ('a, 'r) generator" where
  "init C cfg =
     seq (TextEncoder C cfg) (\<lambda>te.
     seq (HiFiGANGenerator C cfg) (\<lambda>dec.
     seq (PosteriorEncoder C cfg) (\<lambda>pe.
     seq (ResidualAffineCouplingBlock C cfg) (\<lambda>fl.
     seq (Projection C (hidden_channels cfg) (hidden_channels cfg)) (\<lambda>pr.
     seq (if use_sdp cfg then StochasticDurationPredictor C cfg else DurationPredictor C cfg) (\<lambda>dp.
     seq (LengthRegulator C) (\<lambda>reg.
     seq (guarded (spks cfg) 1 (global_channels cfg)
            (\<lambda>n. Embedding C n (global_channels cfg))) (\<lambda>(sp, ge).
     seq (guarded (spk_embed_dim cfg) 0 (global_channels cfg)
            (\<lambda>n. Linear C n (global_channels cfg))) (\<lambda>(sd, sj).
     seq (guarded (langs cfg) 1 (global_channels cfg)
            (\<lambda>n. Embedding C n (global_channels cfg))) (\<lambda>(lg, le).
     seq (import_maximum_path C) (\<lambda>mp.
     Inr \<lparr> self_segment_size = segment_size cfg,
           text_encoder = te, decoder = dec, posterior_encoder = pe, flow = fl,
           project = pr, self_use_sdp = use_sdp cfg, duration_predictor = dp, lr = reg,
           upsample_factor = np_prod (decoder_upsample_scales cfg),
           self_spks = sp, global_emb = ge,
           self_spk_embed_dim = sd, spemb_proj = sj,
           self_langs = lg, lang_emb = le,
           maximum_path = mp \<rparr>)))))))))))"

subsection \<open>Global conditioning\<close>

text \<open>
  \<open>g\<close> is the sum of the contributions that are configured. A configured feature
  whose input is \<open>None\<close> raises an AttributeError (\<open>sids.view\<close>, \<open>spembs\<close> inside
  \<open>F.normalize\<close> or \<open>spembs.unsqueeze\<close>, \<open>lids.view\<close>). \<open>sids\<close> and \<open>lids\<close> are given
  flattened, as \<open>view(-1)\<close> leaves them.
\<close>

definition accumulate ::
  "('a, 'r) lib \<Rightarrow> 'a tensor3 option \<Rightarrow> 'a tensor3 \<Rightarrow> error + 'a tensor3 option" where
  "accumulate L g g' =
     (case g of None \<Rightarrow> Inr (Some g')
      | Some g0 \<Rightarrow> seq (broadcast3 (fadd L) g0 g') (\<lambda>s. Inr (Some s)))"

definition index_embedding ::
  "('a, 'r) lib \<Rightarrow> int option \<Rightarrow> 'a embedding_net option \<Rightarrow> int list option \<Rightarrow>
   'a tensor3 option \<Rightarrow> error + 'a tensor3 option" where
  "index_embedding L feature emb ids g =
     (case feature of
        None \<Rightarrow> Inr g
      | Some _ \<Rightarrow>
          (case emb of
             None \<Rightarrow> Inl AttributeError
           | Some e \<Rightarrow>
               (case ids of
                  None \<Rightarrow> Inl AttributeError
                | Some i \<Rightarrow> seq (e i) (\<lambda>v. accumulate L g (unsqueeze_last v)))))"

definition speaker_embedding ::
  "('a, 'r) lib \<Rightarrow> int option \<Rightarrow> 'a linear_net option \<Rightarrow> 'a tensor2 option \<Rightarrow>
   'a tensor3 option \<Rightarrow> error + 'a tensor3 option" where
  "speaker_embedding L feature proj spembs g =
     (case feature of
        None \<Rightarrow> Inr g
      | Some _ \<Rightarrow>
          (case proj of
             None \<Rightarrow> Inl AttributeError
           | Some p \<Rightarrow>
               (case spembs of
                  None \<Rightarrow> Inl AttributeError
                | Some s \<Rightarrow> seq (p (normalize L s)) (\<lambda>v. accumulate L g (unsqueeze_last v)))))"

text \<open>The first contribution is assigned, not added: it starts from \<open>g = None\<close>.\<close>

definition global_conditioning ::
  "('a, 'r) lib \<Rightarrow> ('a, 'r) generator \<Rightarrow> int list option \<Rightarrow> 'a tensor2 option \<Rightarrow>
   int list option \<Rightarrow> error + 'a tensor3 option" where
  "global_conditioning L G sids spembs lids =
     seq (index_embedding L (self_spks G) (global_emb G) sids None) (\<lambda>g.
     seq (speaker_embedding L (self_spk_embed_dim G) (spemb_proj G) spembs g) (\<lambda>g.
     index_embedding L (self_langs G) (lang_emb G) lids g))"

subsection \<open>\<open>forward\<close>\<close>

text \<open>
  Lines 464--476 add a sinusoidal code to \<open>x\<close>. The sum is bound to \<open>x\<close> and never
  read again, so only the ways the block can raise are kept: \<open>math.log(10000.0) /
  d_model\<close> divides by zero for \<open>d_model = 0\<close>, and the assignment
  \<open>pe[:, :, 1::2] = torch.cos(position * div_term)\<close> puts \<open>(d_model + 1) div 2\<close> columns
  into \<open>d_model div 2\<close> places, which fits when the two agree or the source has a
  single column.
\<close>

definition positional_encoding :: "'a tensor3 \<Rightarrow> error + unit" where
  "positional_encoding x =
     (let d_model = dim1 x in
      if d_model = 0 then Inl ZeroDivisionError
      else if bdim ((d_model + 1) div 2) (d_model div 2) = Some (d_model div 2) then Inr ()
      else Inl RuntimeError)"

text \<open>
  The arguments of \<open>forward\<close> that the body reads, and every length buffer of the
  signature (by address). The tensors \<open>text\<close>, \<open>label_lab\<close>, \<open>midi_lab\<close>, \<open>tempo_lab\<close>,
  \<open>tempo_xml\<close> and \<open>beat_lab\<close> are never read and are left out.
\<close>

record 'a forward_args =
  text_lengths :: addr
  feats :: "'a tensor3"
  feats_lengths :: addr
  ds :: "int tensor2"
  label_lab_lengths :: "addr option"
  label_xml :: "int tensor2 option"
  label_xml_lengths :: "addr option"
  midi_lab_lengths :: "addr option"
  midi_xml :: "int tensor2 option"
  midi_xml_lengths :: "addr option"
  tempo_lab_lengths :: "addr option"
  tempo_xml_lengths :: "addr option"
  beat_lab_lengths :: "addr option"
  beat_xml :: "int tensor2 option"
  beat_xml_lengths :: "addr option"
  sids :: "int list option"
  spembs :: "'a tensor2 option"
  lids :: "int list option"

text \<open>
  The value returned: \<open>(wav, z_start_idxs, x_mask, y_mask, (z, z_p, m_p, logs_p, m_q,
  logs_q))\<close>. The inner tuple holds tensors only and is a list here, so that its
  number of elements is a value.
\<close>

type_synonym 'a forward_result =
  "'a tensor3 \<times> int list \<times> 'a tensor3 \<times> 'a tensor3 \<times> 'a tensor3 list"

text \<open>
  Lines 393--555: everything after the xml block, given the streams and lengths the
  block produced.
\<close>

definition forward_networks ::
  "('a, 'r) lib \<Rightarrow> ('a, 'r) generator \<Rightarrow> 'a forward_args \<Rightarrow>
   int tensor2 \<times> int list \<times> int tensor2 \<times> int tensor2 \<Rightarrow> ('r, 'a forward_result) prog" where
  "forward_networks L G A = (\<lambda>(label_xml', label_xml_lengths', midi_xml', beat_xml').
     bnd (call (text_encoder G (Some label_xml') (Some label_xml_lengths') (Some (ds A))
            (Some midi_xml') (Some beat_xml'))) (\<lambda>(x, m_p, logs_p, x_mask).
     bnd (lift (global_conditioning L G (sids A) (spembs A) (lids A))) (\<lambda>g.
     bnd (lift (positional_encoding x)) (\<lambda>_.
     bnd (read_buf (feats_lengths A)) (\<lambda>feats_lengths'.
     bnd (call (posterior_encoder G (Some (feats A)) (Some feats_lengths') g))
       (\<lambda>(z, m_q, logs_q, y_mask).
     bnd (call (flow G z y_mask g False)) (\<lambda>z_p.
     bnd (call (get_random_segments L z feats_lengths' (self_segment_size G)))
       (\<lambda>(z_segments, z_start_idxs).
     bnd (call (decoder G z_segments g)) (\<lambda>wav.
     ret (wav, z_start_idxs, x_mask, y_mask, [z, z_p, m_p, logs_p, m_q, logs_q]))))))))))"

definition forward ::
  "('a, 'r) lib \<Rightarrow> ('a, 'r) generator \<Rightarrow> 'a forward_args \<Rightarrow> ('r, 'a forward_result) prog" where
  "forward L G A =
     bnd (reconcile_xml (dim2 (feats A)) (label_xml A) (label_xml_lengths A)
            (midi_xml A) (beat_xml A))
         (forward_networks L G A)"

subsection \<open>\<open>inference\<close>\<close>

text \<open>
  \<open>inference\<close> writes to nothing it is given, so its arguments are values. The
  unread tensors \<open>text\<close>, \<open>text_lengths\<close>, \<open>label_lab\<close>, \<open>midi_lab\<close>, \<open>tempo_lab\<close>,
  \<open>tempo_xml\<close> and \<open>beat_lab\<close> are left out; \<open>dur\<close> (here \<open>inf_dur\<close>),
  \<open>noise_scale_dur\<close> and \<open>alpha\<close> are kept. \<open>spembs\<close> is a single vector here.
\<close>

record 'a inference_args =
  inf_feats :: "'a tensor3 option"
  inf_feats_lengths :: "int list option"
  inf_label_xml :: "int tensor2 option"
  inf_label_xml_lengths :: "int list option"
  inf_midi_xml :: "int tensor2 option"
  inf_beat_xml :: "int tensor2 option"
  inf_sids :: "int list option"
  inf_spembs :: "'a list option"
  inf_lids :: "int list option"
  inf_dur :: "'a tensor3 option"
  noise_scale :: 'a
  noise_scale_dur :: 'a
  alpha :: 'a
  max_len :: "int option"
  use_teacher_forcing :: bool

type_synonym 'a inference_result = "'a tensor \<times> 'a tensor3 option \<times> 'a tensor3 option"

definition inference ::
  "('a, 'r) lib \<Rightarrow> ('a, 'r) generator \<Rightarrow> 'a inference_args \<Rightarrow> ('r, 'a inference_result) prog" where
  "inference L G A =
     bnd (call (text_encoder G (inf_label_xml A) (inf_label_xml_lengths A) None
            (inf_midi_xml A) (inf_beat_xml A))) (\<lambda>(x, m_p, logs_p, x_mask).
     bnd (lift (global_conditioning L G (inf_sids A)
            (map_option unsqueeze_first (inf_spembs A)) (inf_lids A))) (\<lambda>g.
     if use_teacher_forcing A then
       bnd (call (posterior_encoder G (inf_feats A) (inf_feats_lengths A) g))
         (\<lambda>(z, m_q, logs_q, y_mask).
       bnd (call (flow G z y_mask g False)) (\<lambda>z_p.
       bnd (lift (broadcast3 (fmul L) z y_mask)) (\<lambda>zm.
       bnd (call (decoder G zm g)) (\<lambda>wav.
       ret (squeeze1 wav, None, None)))))
     else
       bnd (call (randn_like L m_p)) (\<lambda>eps.
       bnd (lift (broadcast3 (fmul L) eps (map3 (fexp L) logs_p))) (\<lambda>t.
       bnd (lift (broadcast3 (fadd L) m_p (map3 (\<lambda>v. fmul L v (noise_scale A)) t))) (\<lambda>z_p.
       bnd (call (flow G z_p x_mask g True)) (\<lambda>z.
       bnd (lift (broadcast3 (fmul L) z x_mask)) (\<lambda>zm.
       bnd (call (decoder G (slice_time (max_len A) zm) g)) (\<lambda>wav.
       ret (squeeze1 wav, None, None)))))))))"

subsection \<open>\<open>_generate_path\<close>\<close>

text \<open>
  \<open>dur\<close> is \<open>(B, 1, T_text)\<close> and \<open>mask\<close> is \<open>(B, 1, T_feats, T_text)\<close>; the axis of
  size 1 is dropped here, so \<open>dur\<close> is a \<open>tensor2\<close> and \<open>mask\<close> a \<open>tensor3\<close> with
  \<open>b = dim0\<close>, \<open>t_y = dim1\<close>, \<open>t_x = dim2\<close>. Durations, mask and path are integers.
\<close>

fun cumsum_from :: "int \<Rightarrow> int list \<Rightarrow> int list" where
  "cumsum_from acc [] = []"
| "cumsum_from acc (x # xs) = (acc + x) # cumsum_from (acc + x) xs"

definition cumsum :: "int list \<Rightarrow> int list" where
  "cumsum xs = cumsum_from 0 xs"

text \<open>\<open>torch.arange(t_y).unsqueeze(0) < c\<close>, one row for the bound \<open>c\<close>, as numbers.\<close>

definition below :: "nat \<Rightarrow> int \<Rightarrow> int list" where
  "below t_y c = map (\<lambda>j. if int j < c then 1 else 0) [0..<t_y]"

text \<open>\<open>view(b, t_x, t_y)\<close> of a list of \<open>b * t_x\<close> rows.\<close>

fun chunk :: "nat \<Rightarrow> nat \<Rightarrow> 'x list \<Rightarrow> 'x list list" where
  "chunk n 0 xs = []"
| "chunk n (Suc k) xs = take n xs # chunk n k (drop n xs)"

text \<open>
  \<open>path - F.pad(path, [0, 0, 1, 0, 0, 0])[:, :-1]\<close> for one batch entry: a row of
  zeros is put in front, the last row is dropped, and the result is subtracted.
\<close>

definition first_difference :: "nat \<Rightarrow> int list list \<Rightarrow> int list list" where
  "first_difference t_y p = map2 (map2 (-)) p (butlast (replicate t_y 0 # p))"

text \<open>
  Lines 722--732: the path before the mask, \<open>(b, t_x, t_y)\<close>. \<open>view(b * t_x)\<close> raises
  when \<open>dur\<close> does not hold \<open>b * t_x\<close> numbers.
\<close>

definition path_before_mask :: "int tensor2 \<Rightarrow> nat \<Rightarrow> nat \<Rightarrow> nat \<Rightarrow> error + int list list list" where
  "path_before_mask dur b t_y t_x =
     (let cum_dur = map cumsum (vals2 dur) in
      if rows dur * cols dur \<noteq> b * t_x then Inl RuntimeError
      else
        let cum_dur_flat = concat cum_dur;
            path = chunk t_x b (map (below t_y) cum_dur_flat)
        in Inr (map (first_difference t_y) path))"

text \<open>\<open>transpose(2, 3)\<close> of one \<open>(t_x, t_y)\<close> entry.\<close>

definition transpose23 :: "nat \<Rightarrow> 'x list list \<Rightarrow> 'x list list" where
  "transpose23 t_y p = map (\<lambda>j. map (\<lambda>r. r ! j) p) [0..<t_y]"

text \<open>Line 733. The argument \<open>mask\<close> is called \<open>attn_mask\<close> here.\<close>

definition generate_path :: "int tensor2 \<Rightarrow> int tensor3 \<Rightarrow> error + int tensor3" where
  "generate_path dur attn_mask =
     seq (path_before_mask dur (dim0 attn_mask) (dim1 attn_mask) (dim2 attn_mask)) (\<lambda>path.
     Inr \<lparr> dim0 = dim0 attn_mask, dim1 = dim1 attn_mask, dim2 = dim2 attn_mask,
           vals3 = map2 (map2 (map2 (*))) (map (transpose23 (dim1 attn_mask)) path) (vals3 attn_mask) \<rparr>)"

section \<open>The specification's wording\<close>

text \<open>
  The definitions of this section follow the specification, not the code, or name
  what the statements below speak about; the theorems compare them with the model
  above.
\<close>

text \<open>
  ``If shorter, zero-pad on the right to match; if longer, truncate on the right'',
  row by row.
\<close>

definition spec_pad_or_truncate :: "nat \<Rightarrow> int tensor2 \<Rightarrow> int tensor2" where
  "spec_pad_or_truncate T t =
     \<lparr> rows = rows t, cols = T,
       vals2 = map (\<lambda>r. if length r < T then r @ replicate (T - length r) 0 else take T r)
                 (vals2 t) \<rparr>"

text \<open>
  ``If a per-example declared length equals the full padded width of that input, it
  is corrected to equal the feature length instead.''
\<close>

definition spec_corrected_lengths :: "nat \<Rightarrow> nat \<Rightarrow> int list \<Rightarrow> int list" where
  "spec_corrected_lengths width T ls = map (\<lambda>l. if l = int width then int T else l) ls"

text \<open>A feature is configured: its count or dimension is given and exceeds \<open>k\<close>.\<close>

definition configured :: "int option \<Rightarrow> int \<Rightarrow> bool" where
  "configured v k = (case v of None \<Rightarrow> False | Some n \<Rightarrow> k < n)"

text \<open>Entry \<open>[i, j, k]\<close> of a tensor, and the tensor with given entries.\<close>

definition at3 :: "'a tensor3 \<Rightarrow> nat \<Rightarrow> nat \<Rightarrow> nat \<Rightarrow> 'a" where
  "at3 t i j k = vals3 t ! i ! j ! k"

definition tabulate3 :: "nat \<Rightarrow> nat \<Rightarrow> nat \<Rightarrow> (nat \<Rightarrow> nat \<Rightarrow> nat \<Rightarrow> 'a) \<Rightarrow> 'a tensor3" where
  "tabulate3 b c t f =
     \<lparr> dim0 = b, dim1 = c, dim2 = t,
       vals3 = map (\<lambda>i. map (\<lambda>j. map (\<lambda>k. f i j k) [0..<t]) [0..<c]) [0..<b] \<rparr>"

text \<open>
  ``mean + noise * exp(log-scale) * noise_scale'', entry by entry, on the time axis of
  the prior mean.
\<close>

definition spec_prior_sample ::
  "('a, 'r) lib \<Rightarrow> 'a \<Rightarrow> 'a tensor3 \<Rightarrow> 'a tensor3 \<Rightarrow> 'a tensor3 \<Rightarrow> 'a tensor3" where
  "spec_prior_sample L scale m_p noise logs_p =
     tabulate3 (dim0 m_p) (dim1 m_p) (dim2 m_p)
       (\<lambda>i j k. fadd L (at3 m_p i j k)
                  (fmul L (fmul L (at3 noise i j k) (fexp L (at3 logs_p i j k))) scale))"

text \<open>A latent times a validity mask \<open>(B, 1, T)\<close>: every channel meets the one mask row.\<close>

definition spec_masked :: "('a, 'r) lib \<Rightarrow> 'a tensor3 \<Rightarrow> 'a tensor3 \<Rightarrow> 'a tensor3" where
  "spec_masked L z m =
     tabulate3 (dim0 z) (dim1 z) (dim2 z) (\<lambda>i j k. fmul L (at3 z i j k) (at3 m i 0 k))"

text \<open>
  Modelled from the spec: the decoder (\<open>HiFiGANGenerator\<close>, not in this file).
  ``Produce a raw waveform of length \<open>time * upsample_factor\<close>, where
  \<open>upsample_factor\<close> is the product of all configured upsampling stage scales.''
\<close>

definition decoder_contract :: "int list \<Rightarrow> ('a, 'r) decoder_net \<Rightarrow> bool" where
  "decoder_contract scales dec =
     (\<forall>z g r wav r'. dec z g r = (Inr wav, r') \<longrightarrow>
        int (dim2 wav) = int (dim2 z) * prod_list scales)"

text \<open>
  Modelled from the spec: \<open>get_random_segments\<close> (\<open>espnet2.gan_tts.utils\<close>, not in
  this file). The latent is ``cropped to a fixed segment length during training'',
  one crop per example.
\<close>

definition segments_contract ::
  "('a tensor3 \<Rightarrow> int list \<Rightarrow> int \<Rightarrow> 'r \<Rightarrow> (error + 'a tensor3 \<times> int list) \<times> 'r) \<Rightarrow> bool" where
  "segments_contract grs =
     (\<forall>z lens S r seg idx r'. grs z lens S r = (Inr (seg, idx), r') \<longrightarrow>
        int (dim2 seg) = S \<and> dim0 seg = dim0 z \<and> dim1 seg = dim1 z)"

text \<open>
  Modelled from the spec: the channel counts of the networks that are not in this
  file. The prior mean and log-scale, the posterior latent with its mean and
  log-scale, all have \<open>H\<close> channels (the docstring of \<open>forward\<close> gives \<open>(B, H, T_feats)\<close>
  for each, and the constructor hands \<open>hidden_channels\<close> to each network); the flow
  keeps the shape of its input.
\<close>

definition channel_contract :: "int \<Rightarrow> ('a, 'r) generator \<Rightarrow> bool" where
  "channel_contract H G =
     ((\<forall>a b c d e r x m_p logs_p x_mask r'.
         text_encoder G a b c d e r = (Inr (x, m_p, logs_p, x_mask), r') \<longrightarrow>
         int (dim1 m_p) = H \<and> int (dim1 logs_p) = H) \<and>
      (\<forall>f l g r z m_q logs_q y_mask r'.
         posterior_encoder G f l g r = (Inr (z, m_q, logs_q, y_mask), r') \<longrightarrow>
         int (dim1 z) = H \<and> int (dim1 m_q) = H \<and> int (dim1 logs_q) = H) \<and>
      (\<forall>z m g inv r z_p r'.
         flow G z m g inv r = (Inr z_p, r') \<longrightarrow> dim1 z_p = dim1 z))"

text \<open>
  The constructors of the networks (lines 187--266) return: none of them raises.
\<close>

definition networks_build :: "('a, 'r) classes \<Rightarrow> config \<Rightarrow> bool" where
  "networks_build C cfg =
     (\<not> isl (TextEncoder C cfg) \<and> \<not> isl (HiFiGANGenerator C cfg) \<and>
      \<not> isl (PosteriorEncoder C cfg) \<and> \<not> isl (ResidualAffineCouplingBlock C cfg) \<and>
      \<not> isl (Projection C (hidden_channels cfg) (hidden_channels cfg)) \<and>
      \<not> isl (if use_sdp cfg then StochasticDurationPredictor C cfg else DurationPredictor C cfg) \<and>
      \<not> isl (LengthRegulator C))"

text \<open>
  The posterior path of training: the features go through the posterior encoder and
  the latent it returns goes through the flow, forwards, under the feature mask.
\<close>

definition posterior_then_flow ::
  "('a, 'r) generator \<Rightarrow> 'a tensor3 option \<Rightarrow> int list option \<Rightarrow> 'a tensor3 option \<Rightarrow> 'r \<Rightarrow>
   (error + 'a tensor3 \<times> 'a tensor3 \<times> 'a tensor3 \<times> 'a tensor3 \<times> 'a tensor3) \<times> 'r" where
  "posterior_then_flow G f l g r =
     (case posterior_encoder G f l g r of
        (Inl e, r2) \<Rightarrow> (Inl e, r2)
      | (Inr (z, m_q, logs_q, y_mask), r2) \<Rightarrow>
          (case flow G z y_mask g False r2 of
             (Inl e, r3) \<Rightarrow> (Inl e, r3)
           | (Inr z_p, r3) \<Rightarrow> (Inr (z, z_p, m_q, logs_q, y_mask), r3)))"

text \<open>The number of ones in a row of a path.\<close>

definition ones :: "int list \<Rightarrow> nat" where
  "ones row = length (filter (\<lambda>v. v = 1) row)"

section \<open>An example configuration\<close>

text \<open>
  A small generator over integers with a counter as random state. It is used to run
  the model on concrete inputs.
\<close>

definition const3 :: "nat \<Rightarrow> nat \<Rightarrow> nat \<Rightarrow> 'a \<Rightarrow> 'a tensor3" where
  "const3 b c t v = \<lparr> dim0 = b, dim1 = c, dim2 = t, vals3 = replicate b (replicate c (replicate t v)) \<rparr>"

definition ex_text_encoder :: "nat \<Rightarrow> (int, nat) text_encoder_net" where
  "ex_text_encoder H = (\<lambda>lx lens d mx bx r.
     case lx of
       None \<Rightarrow> (Inl AttributeError, r)
     | Some t \<Rightarrow>
         (Inr (const3 (rows t) H (cols t) 0,
               \<lparr> dim0 = rows t, dim1 = H, dim2 = cols t,
                 vals3 = map (\<lambda>row. replicate H row) (vals2 t) \<rparr>,
               const3 (rows t) H (cols t) 0, const3 (rows t) 1 (cols t) 1), r))"

definition ex_posterior_encoder :: "nat \<Rightarrow> (int, nat) posterior_encoder_net" where
  "ex_posterior_encoder H = (\<lambda>f lens g r.
     case f of
       None \<Rightarrow> (Inl AttributeError, r)
     | Some t \<Rightarrow>
         (Inr (\<lparr> dim0 = dim0 t, dim1 = H, dim2 = dim2 t,
                 vals3 = map (\<lambda>m. replicate H (map (\<lambda>v. v + int r) (concat (take 1 m))))
                           (vals3 t) \<rparr>,
               const3 (dim0 t) H (dim2 t) 0,
               const3 (dim0 t) H (dim2 t) 0, const3 (dim0 t) 1 (dim2 t) 1), Suc r))"

definition ex_flow :: "(int, nat) flow_net" where
  "ex_flow = (\<lambda>z m g inv r. (Inr (map3 (\<lambda>v. if inv then v - 1 else v + 1) z), r))"

definition ex_decoder :: "int list \<Rightarrow> (int, nat) decoder_net" where
  "ex_decoder scales = (\<lambda>z g r.
     if 0 \<le> prod_list scales
     then (Inr \<lparr> dim0 = dim0 z, dim1 = 1, dim2 = dim2 z * nat (prod_list scales),
                 vals3 = map (\<lambda>m. [concat (map (replicate (nat (prod_list scales)))
                                               (concat (take 1 m)))]) (vals3 z) \<rparr>, r)
     else (Inl RuntimeError, r))"

definition ex_segments ::
  "int tensor3 \<Rightarrow> int list \<Rightarrow> int \<Rightarrow> nat \<Rightarrow> (error + int tensor3 \<times> int list) \<times> nat" where
  "ex_segments = (\<lambda>z lens S r.
     if 0 \<le> S
     then (Inr (\<lparr> dim0 = dim0 z, dim1 = dim1 z, dim2 = nat S,
                  vals3 = map (map (take (nat S))) (vals3 z) \<rparr>, replicate (dim0 z) 0), Suc r)
     else (Inl RuntimeError, r))"

definition ex_lib :: "(int, nat) lib" where
  "ex_lib = \<lparr> fadd = (+), fmul = (*), fexp = (\<lambda>v. v + 1), normalize = (\<lambda>t. t),
              randn = (\<lambda>r. (int r, Suc r)), get_random_segments = ex_segments \<rparr>"

definition ex_classes :: "(int, nat) classes" where
  "ex_classes =
     \<lparr> TextEncoder = (\<lambda>cfg. Inr (ex_text_encoder (nat (hidden_channels cfg)))),
       HiFiGANGenerator = (\<lambda>cfg. Inr (ex_decoder (decoder_upsample_scales cfg))),
       PosteriorEncoder = (\<lambda>cfg. Inr (ex_posterior_encoder (nat (hidden_channels cfg)))),
       ResidualAffineCouplingBlock = (\<lambda>cfg. Inr ex_flow),
       Projection = (\<lambda>i out. Inr (\<lambda>x m. Inl (OtherError ''unused''))),
       StochasticDurationPredictor = (\<lambda>cfg. Inr (\<lambda>x m g r. (Inl (OtherError ''unused''), r))),
       DurationPredictor = (\<lambda>cfg. Inr (\<lambda>x m g r. (Inl (OtherError ''unused''), r))),
       LengthRegulator = Inr (\<lambda>x m b l. Inl (OtherError ''unused'')),
       Embedding = (\<lambda>n gc ids. Inr \<lparr> rows = length ids, cols = nat gc,
                                      vals2 = map (\<lambda>i. replicate (nat gc) i) ids \<rparr>),
       Linear = (\<lambda>n gc t. Inr \<lparr> rows = rows t, cols = nat gc,
                                 vals2 = map (\<lambda>r. replicate (nat gc) (sum_list r)) (vals2 t) \<rparr>),
       import_maximum_path = Inr (\<lambda>a b. Inl (OtherError ''unused'')) \<rparr>"

definition ex_config :: config where
  "ex_config = \<lparr> hidden_channels = 2, spks = None, langs = None, spk_embed_dim = None,
                 global_channels = -1, segment_size = 2, decoder_upsample_scales = [2, 2],
                 use_sdp = False \<rparr>"

definition ex_generator :: "(int, nat) generator" where
  "ex_generator =
     \<lparr> self_segment_size = 2,
       text_encoder = ex_text_encoder 2, decoder = ex_decoder [2, 2],
       posterior_encoder = ex_posterior_encoder 2, flow = ex_flow,
       project = (\<lambda>x m. Inl (OtherError ''unused'')), self_use_sdp = False,
       duration_predictor = (\<lambda>x m g r. (Inl (OtherError ''unused''), r)),
       lr = (\<lambda>x m b l. Inl (OtherError ''unused'')),
       upsample_factor = 4,
       self_spks = None, global_emb = None, self_spk_embed_dim = None, spemb_proj = None,
       self_langs = None, lang_emb = None,
       maximum_path = (\<lambda>a b. Inl (OtherError ''unused'')) \<rparr>"

text \<open>
  A batch of two examples: the xml streams are three wide, the features five frames
  long. The first declared xml length is the padded width.
\<close>

definition ex_xml :: "int tensor2" where
  "ex_xml = \<lparr> rows = 2, cols = 3, vals2 = [[7, 8, 9], [4, 5, 0]] \<rparr>"

definition ex_args :: "int forward_args" where
  "ex_args =
     \<lparr> text_lengths = 0,
       feats = \<lparr> dim0 = 2, dim1 = 1, dim2 = 5,
                 vals3 = [[[1, 2, 3, 4, 5]], [[6, 7, 8, 9, 0]]] \<rparr>,
       feats_lengths = 1,
       ds = \<lparr> rows = 2, cols = 3, vals2 = [[2, 2, 1], [3, 2, 0]] \<rparr>,
       label_lab_lengths = None, label_xml = Some ex_xml, label_xml_lengths = Some 2,
       midi_lab_lengths = None, midi_xml = Some ex_xml, midi_xml_lengths = Some 3,
       tempo_lab_lengths = None, tempo_xml_lengths = None, beat_lab_lengths = None,
       beat_xml = Some ex_xml, beat_xml_lengths = Some 4,
       sids = None, spembs = None, lids = None \<rparr>"

definition ex_heap :: "addr \<Rightarrow> int list" where
  "ex_heap a = (if a = 1 then [5, 4] else [3, 2])"

definition ex_world :: "nat world" where
  "ex_world = \<lparr> heap = ex_heap, rng = 0 \<rparr>"

definition ex_inference_args :: "int inference_args" where
  "ex_inference_args =
     \<lparr> inf_feats = Some \<lparr> dim0 = 1, dim1 = 1, dim2 = 5, vals3 = [[[1, 2, 3, 4, 5]]] \<rparr>,
       inf_feats_lengths = Some [5],
       inf_label_xml = Some \<lparr> rows = 1, cols = 3, vals2 = [[7, 8, 9]] \<rparr>,
       inf_label_xml_lengths = Some [3],
       inf_midi_xml = Some \<lparr> rows = 1, cols = 3, vals2 = [[60, 62, 64]] \<rparr>,
       inf_beat_xml = Some \<lparr> rows = 1, cols = 3, vals2 = [[2, 2, 1]] \<rparr>,
       inf_sids = None, inf_spembs = None, inf_lids = None,
       inf_dur = None, noise_scale = 2, noise_scale_dur = 1, alpha = 1,
       max_len = Some 2, use_teacher_forcing = False \<rparr>"

definition ex_padded :: "int tensor2" where
  "ex_padded = \<lparr> rows = 2, cols = 5, vals2 = [[7, 8, 9, 0, 0], [4, 5, 0, 0, 0]] \<rparr>"

definition ex_z :: "int tensor3" where
  "ex_z = \<lparr> dim0 = 2, dim1 = 2, dim2 = 5,
            vals3 = [[[1, 2, 3, 4, 5], [1, 2, 3, 4, 5]], [[6, 7, 8, 9, 0], [6, 7, 8, 9, 0]]] \<rparr>"

definition ex_z_p :: "int tensor3" where
  "ex_z_p = \<lparr> dim0 = 2, dim1 = 2, dim2 = 5,
              vals3 = [[[2, 3, 4, 5, 6], [2, 3, 4, 5, 6]], [[7, 8, 9, 10, 1], [7, 8, 9, 10, 1]]] \<rparr>"

definition ex_m_p :: "int tensor3" where
  "ex_m_p = \<lparr> dim0 = 2, dim1 = 2, dim2 = 5,
              vals3 = [[[7, 8, 9, 0, 0], [7, 8, 9, 0, 0]], [[4, 5, 0, 0, 0], [4, 5, 0, 0, 0]]] \<rparr>"

definition ex_z_segments :: "int tensor3" where
  "ex_z_segments = \<lparr> dim0 = 2, dim1 = 2, dim2 = 2,
                     vals3 = [[[1, 2], [1, 2]], [[6, 7], [6, 7]]] \<rparr>"

definition ex_wav :: "int tensor3" where
  "ex_wav = \<lparr> dim0 = 2, dim1 = 1, dim2 = 8,
              vals3 = [[[1, 1, 1, 1, 2, 2, 2, 2]], [[6, 6, 6, 6, 7, 7, 7, 7]]] \<rparr>"

definition ex_inf_m_p :: "int tensor3" where
  "ex_inf_m_p = \<lparr> dim0 = 1, dim1 = 2, dim2 = 3, vals3 = [[[7, 8, 9], [7, 8, 9]]] \<rparr>"

definition ex_inf_eps :: "int tensor3" where
  "ex_inf_eps = \<lparr> dim0 = 1, dim1 = 2, dim2 = 3, vals3 = [[[0, 1, 2], [3, 4, 5]]] \<rparr>"

definition ex_inf_z :: "int tensor3" where
  "ex_inf_z = \<lparr> dim0 = 1, dim1 = 2, dim2 = 3, vals3 = [[[6, 9, 12], [12, 15, 18]]] \<rparr>"

definition ex_inf_wav :: "int tensor3" where
  "ex_inf_wav = \<lparr> dim0 = 1, dim1 = 1, dim2 = 8, vals3 = [[[6, 6, 6, 6, 9, 9, 9, 9]]] \<rparr>"

definition ex_tf_z :: "int tensor3" where
  "ex_tf_z = \<lparr> dim0 = 1, dim1 = 2, dim2 = 5, vals3 = [[[1, 2, 3, 4, 5], [1, 2, 3, 4, 5]]] \<rparr>"

definition ex_tf_wav :: "int tensor3" where
  "ex_tf_wav = \<lparr> dim0 = 1, dim1 = 1, dim2 = 20,
                 vals3 = [[[1, 1, 1, 1, 2, 2, 2, 2, 3, 3, 3, 3, 4, 4, 4, 4, 5, 5, 5, 5]]] \<rparr>"

definition ex_dur :: "int tensor2" where
  "ex_dur = \<lparr> rows = 1, cols = 3, vals2 = [[2, 2, 1]] \<rparr>"

text \<open>
  A batch whose xml streams differ in width: \<open>label_xml\<close> is wider than the five
  feature frames, \<open>midi_xml\<close> narrower, \<open>beat_xml\<close> wider still.
\<close>

definition ex_label6 :: "int tensor2" where
  "ex_label6 = \<lparr> rows = 2, cols = 6, vals2 = [[7, 8, 9, 1, 2, 3], [4, 5, 6, 0, 0, 0]] \<rparr>"

definition ex_midi3 :: "int tensor2" where
  "ex_midi3 = \<lparr> rows = 2, cols = 3, vals2 = [[60, 62, 64], [65, 67, 0]] \<rparr>"

definition ex_beat8 :: "int tensor2" where
  "ex_beat8 = \<lparr> rows = 2, cols = 8,
                vals2 = [[1, 1, 2, 2, 1, 1, 2, 2], [2, 2, 1, 0, 0, 0, 0, 0]] \<rparr>"

definition ex_args_mixed :: "int forward_args" where
  "ex_args_mixed = ex_args\<lparr> label_xml := Some ex_label6, midi_xml := Some ex_midi3,
                              beat_xml := Some ex_beat8 \<rparr>"

section \<open>Properties\<close>

subsection \<open>The xml block\<close>

lemma correct_lengths_buf:
  "length buf = i + length ls \<Longrightarrow>
   correct_lengths (Some t) T ls i buf =
     Inr (take i buf @ map2 (\<lambda>l b. if l = int (cols t) then int T else b) ls (drop i buf))"
proof (induction ls arbitrary: i buf)
  case Nil
  then show ?case by simp
next
  case (Cons l ls)
  let ?buf' = "if l = int (cols t) then buf[i := int T] else buf"
  have len: "length ?buf' = Suc i + length ls" using Cons.prems by simp
  have i: "i < length buf" using Cons.prems by simp
  have d: "drop i buf = buf ! i # drop (Suc i) buf"
    using i by (simp add: Cons_nth_drop_Suc)
  have t: "take (Suc i) ?buf' = take i buf @ [if l = int (cols t) then int T else buf ! i]"
    using i by (simp add: take_Suc_conv_app_nth)
  have dd: "drop (Suc i) ?buf' = drop (Suc i) buf" by simp
  show ?case
    using Cons.IH[OF len] t dd d by simp
qed

lemma map2_same: "map2 f xs xs = map (\<lambda>x. f x x) xs"
  by (induction xs) auto

lemma correct_lengths_spec:
  "correct_lengths (Some t) T ls 0 ls = Inr (spec_corrected_lengths (cols t) T ls)"
  using correct_lengths_buf[of ls 0 ls t T] by (simp add: map2_same spec_corrected_lengths_def)

lemma pad_right_spec:
  assumes "wf2 t"
  shows "pad_right (int T - int (cols t)) t = spec_pad_or_truncate T t"
proof -
  have "map (pad_row (int T - int (cols t))) (vals2 t) =
        map (\<lambda>r. if length r < T then r @ replicate (T - length r) 0 else take T r) (vals2 t)"
    using assms by (intro map_cong) (auto simp: wf2_def list_all_iff pad_row_def nat_diff_distrib')
  moreover have "nat (int (cols t) + (int T - int (cols t))) = T" by simp
  ultimately show ?thesis by (simp add: pad_right_def spec_pad_or_truncate_def)
qed

lemma slice_cols_spec:
  assumes "wf2 t" "T \<le> cols t"
  shows "slice_cols T t = spec_pad_or_truncate T t"
proof -
  have "map (take T) (vals2 t) =
        map (\<lambda>r. if length r < T then r @ replicate (T - length r) 0 else take T r) (vals2 t)"
    using assms by (intro map_cong) (auto simp: wf2_def list_all_iff)
  then show ?thesis using assms by (simp add: slice_cols_def spec_pad_or_truncate_def min_def)
qed

lemma pad_or_truncate_spec:
  assumes "wf2 lx" "wf2 mx" "wf2 bx" "T \<le> cols lx \<longrightarrow> T \<le> cols mx \<and> T \<le> cols bx"
  shows "pad_or_truncate T (Some lx) (Some mx) (Some bx) =
           Inr (spec_pad_or_truncate T lx, spec_pad_or_truncate T mx, spec_pad_or_truncate T bx)"
proof (cases "cols lx < T")
  case True
  then show ?thesis
    by (simp add: pad_or_truncate_def seq_def pad_to_def pad_right_spec[OF assms(1)]
        pad_right_spec[OF assms(2)] pad_right_spec[OF assms(3)])
next
  case False
  then have le: "T \<le> cols lx" "T \<le> cols mx" "T \<le> cols bx" using assms(4) by simp_all
  have l: "slice_cols T lx = spec_pad_or_truncate T lx"
    by (rule slice_cols_spec[OF assms(1) le(1)])
  have m: "slice_cols T mx = spec_pad_or_truncate T mx"
    by (rule slice_cols_spec[OF assms(2) le(2)])
  have b: "slice_cols T bx = spec_pad_or_truncate T bx"
    by (rule slice_cols_spec[OF assms(3) le(3)])
  show ?thesis
    using False by (simp add: pad_or_truncate_def seq_def cut_to_def l m b)
qed

lemma wf2_spec_pad_or_truncate:
  "wf2 t \<Longrightarrow> wf2 (spec_pad_or_truncate T t)"
  by (auto simp: wf2_def spec_pad_or_truncate_def list_all_iff)

text \<open>
  Claim C1, amended. The branch is chosen by the width of \<open>label_xml\<close> alone. For every
  batch in which \<open>midi_xml\<close> and \<open>beat_xml\<close> are at least \<open>T\<close> wide whenever \<open>label_xml\<close>
  is (streams that share one padded width always qualify), the three xml streams are
  brought to the feature length \<open>T\<close>: rows shorter than \<open>T\<close> get zeros on the right,
  longer rows are cut on the right, and every declared xml length equal to the padded
  width of \<open>label_xml\<close> becomes \<open>T\<close>; the networks then run on these streams and
  lengths. The statement also covers the case where the width already is \<open>T\<close>.
\<close>

theorem forward_reconciles_xml_streams:
  assumes "label_xml A = Some lx" and "midi_xml A = Some mx" and "beat_xml A = Some bx"
    and "label_xml_lengths A = Some a"
    and "wf2 lx" and "wf2 mx" and "wf2 bx"
    and "T \<le> cols lx \<longrightarrow> T \<le> cols mx \<and> T \<le> cols bx"
    and "T = dim2 (feats A)"
  shows "forward L G A w =
           forward_networks L G A
             (spec_pad_or_truncate T lx,
              spec_corrected_lengths (cols lx) T (heap w a),
              spec_pad_or_truncate T mx,
              spec_pad_or_truncate T bx)
             (w\<lparr> heap := (heap w)(a := spec_corrected_lengths (cols lx) T (heap w a)) \<rparr>)
         \<and> wf2 (spec_pad_or_truncate T lx) \<and> wf2 (spec_pad_or_truncate T mx)
         \<and> wf2 (spec_pad_or_truncate T bx)
         \<and> cols (spec_pad_or_truncate T lx) = T \<and> cols (spec_pad_or_truncate T mx) = T
         \<and> cols (spec_pad_or_truncate T bx) = T"
proof -
  have "reconcile_xml T (Some lx) (Some a) (Some mx) (Some bx) w =
          (Inr (spec_pad_or_truncate T lx, spec_corrected_lengths (cols lx) T (heap w a),
                spec_pad_or_truncate T mx, spec_pad_or_truncate T bx),
           w\<lparr> heap := (heap w)(a := spec_corrected_lengths (cols lx) T (heap w a)) \<rparr>)"
    by (simp add: reconcile_xml_def bnd_def read_buf_def lift_def write_buf_def ret_def
        correct_lengths_spec pad_or_truncate_spec[OF assms(5-8)])
  then have "forward L G A w = forward_networks L G A
             (spec_pad_or_truncate T lx,
              spec_corrected_lengths (cols lx) T (heap w a),
              spec_pad_or_truncate T mx,
              spec_pad_or_truncate T bx)
             (w\<lparr> heap := (heap w)(a := spec_corrected_lengths (cols lx) T (heap w a)) \<rparr>)"
    using assms(1-4,9) by (simp add: forward_def bnd_def)
  moreover have "cols (spec_pad_or_truncate T lx) = T" "cols (spec_pad_or_truncate T mx) = T"
    "cols (spec_pad_or_truncate T bx) = T"
    by (simp_all add: spec_pad_or_truncate_def)
  ultimately show ?thesis
    using assms(5-7) by (simp add: wf2_spec_pad_or_truncate)
qed

lemma ex_xml_wf: "wf2 ex_xml"
  by (simp add: wf2_def ex_xml_def)

theorem forward_reconciles_xml_streams_witness:
  "wf2 ex_xml \<and> cols ex_xml = 3 \<and> dim2 (feats ex_args) = 5 \<and>
   forward ex_lib ex_generator ex_args ex_world =
     forward_networks ex_lib ex_generator ex_args
       (\<lparr> rows = 2, cols = 5, vals2 = [[7, 8, 9, 0, 0], [4, 5, 0, 0, 0]] \<rparr>,
        [5, 2],
        \<lparr> rows = 2, cols = 5, vals2 = [[7, 8, 9, 0, 0], [4, 5, 0, 0, 0]] \<rparr>,
        \<lparr> rows = 2, cols = 5, vals2 = [[7, 8, 9, 0, 0], [4, 5, 0, 0, 0]] \<rparr>)
       (ex_world\<lparr> heap := ex_heap(2 := [5, 2]) \<rparr>) \<and>
   dim2 (feats (ex_args\<lparr> feats := const3 2 1 2 0 \<rparr>)) = 2 \<and>
   forward ex_lib ex_generator (ex_args\<lparr> feats := const3 2 1 2 0 \<rparr>) ex_world =
     forward_networks ex_lib ex_generator (ex_args\<lparr> feats := const3 2 1 2 0 \<rparr>)
       (\<lparr> rows = 2, cols = 2, vals2 = [[7, 8], [4, 5]] \<rparr>,
        [2, 2],
        \<lparr> rows = 2, cols = 2, vals2 = [[7, 8], [4, 5]] \<rparr>,
        \<lparr> rows = 2, cols = 2, vals2 = [[7, 8], [4, 5]] \<rparr>)
       (ex_world\<lparr> heap := ex_heap(2 := [2, 2]) \<rparr>)"
proof -
  have a: "label_xml ex_args = Some ex_xml" "midi_xml ex_args = Some ex_xml"
    "beat_xml ex_args = Some ex_xml" "label_xml_lengths ex_args = Some 2"
    by (simp_all add: ex_args_def)
  have T: "5 = dim2 (feats ex_args)" by (simp add: ex_args_def)
  have p: "spec_pad_or_truncate 5 ex_xml =
      \<lparr> rows = 2, cols = 5, vals2 = [[7, 8, 9, 0, 0], [4, 5, 0, 0, 0]] \<rparr>"
    by (simp add: spec_pad_or_truncate_def ex_xml_def numeral_eq_Suc)
  have l: "spec_corrected_lengths (cols ex_xml) 5 (heap ex_world 2) = [5, 2]"
    by (simp add: spec_corrected_lengths_def ex_xml_def ex_world_def ex_heap_def)
  have i: "5 \<le> cols ex_xml \<longrightarrow> 5 \<le> cols ex_xml \<and> 5 \<le> cols ex_xml" by simp
  let ?A = "ex_args\<lparr> feats := const3 2 1 2 0 \<rparr>"
  have a': "label_xml ?A = Some ex_xml" "midi_xml ?A = Some ex_xml"
    "beat_xml ?A = Some ex_xml" "label_xml_lengths ?A = Some 2"
    by (simp_all add: ex_args_def)
  have T': "2 = dim2 (feats ?A)" by (simp add: const3_def)
  have p': "spec_pad_or_truncate 2 ex_xml = \<lparr> rows = 2, cols = 2, vals2 = [[7, 8], [4, 5]] \<rparr>"
    by (simp add: spec_pad_or_truncate_def ex_xml_def numeral_eq_Suc)
  have l': "spec_corrected_lengths (cols ex_xml) 2 (heap ex_world 2) = [2, 2]"
    by (simp add: spec_corrected_lengths_def ex_xml_def ex_world_def ex_heap_def)
  have i': "2 \<le> cols ex_xml \<longrightarrow> 2 \<le> cols ex_xml \<and> 2 \<le> cols ex_xml" by simp
  show ?thesis
    using forward_reconciles_xml_streams[OF a ex_xml_wf ex_xml_wf ex_xml_wf i T,
        of ex_lib ex_generator ex_world]
      forward_reconciles_xml_streams[OF a' ex_xml_wf ex_xml_wf ex_xml_wf i' T',
        of ex_lib ex_generator ex_world]
      p l T p' l' T'
    by (simp add: ex_xml_def ex_world_def wf2_def)
qed

lemma ex_mixed_block:
  "reconcile_xml 5 (Some ex_label6) (Some 2) (Some ex_midi3) (Some ex_beat8) ex_world =
     (Inr (\<lparr> rows = 2, cols = 5, vals2 = [[7, 8, 9, 1, 2], [4, 5, 6, 0, 0]] \<rparr>,
           [3, 2],
           ex_midi3,
           \<lparr> rows = 2, cols = 5, vals2 = [[1, 1, 2, 2, 1], [2, 2, 1, 0, 0]] \<rparr>),
      ex_world\<lparr> heap := ex_heap(2 := [3, 2]) \<rparr>)"
  by (simp add: reconcile_xml_def bnd_def read_buf_def write_buf_def lift_def ret_def
      correct_lengths_spec pad_or_truncate_def seq_def
      cut_to_def slice_cols_def ex_label6_def ex_midi3_def ex_beat8_def
      spec_corrected_lengths_def ex_world_def ex_heap_def numeral_eq_Suc)

text \<open>
  Claim C1, as stated, speaks of every batch whose \<open>label_xml\<close> width differs from the
  feature length. Here \<open>label_xml\<close> is 6 wide, \<open>midi_xml\<close> 3 wide, \<open>beat_xml\<close> 8 wide and
  the features 5 frames long: the branch of line 387 cuts, \<open>midi_xml[:, :5]\<close> stays 3
  wide, and the networks run on it as it is.
\<close>

theorem forward_leaves_narrow_midi_stream:
  "wf2 ex_label6 \<and> wf2 ex_midi3 \<and> wf2 ex_beat8 \<and>
   cols ex_label6 = 6 \<and> cols ex_midi3 = 3 \<and> dim2 (feats ex_args_mixed) = 5 \<and>
   forward ex_lib ex_generator ex_args_mixed ex_world =
     forward_networks ex_lib ex_generator ex_args_mixed
       (\<lparr> rows = 2, cols = 5, vals2 = [[7, 8, 9, 1, 2], [4, 5, 6, 0, 0]] \<rparr>,
        [3, 2],
        \<lparr> rows = 2, cols = 3, vals2 = [[60, 62, 64], [65, 67, 0]] \<rparr>,
        \<lparr> rows = 2, cols = 5, vals2 = [[1, 1, 2, 2, 1], [2, 2, 1, 0, 0]] \<rparr>)
       (ex_world\<lparr> heap := ex_heap(2 := [3, 2]) \<rparr>) \<and>
   \<not> (\<forall>l' ls' m' b' w'.
        reconcile_xml (dim2 (feats ex_args_mixed)) (label_xml ex_args_mixed)
          (label_xml_lengths ex_args_mixed) (midi_xml ex_args_mixed) (beat_xml ex_args_mixed)
          ex_world = (Inr (l', ls', m', b'), w') \<longrightarrow>
        l' = spec_pad_or_truncate 5 ex_label6 \<and> m' = spec_pad_or_truncate 5 ex_midi3 \<and>
        b' = spec_pad_or_truncate 5 ex_beat8 \<and>
        cols l' = 5 \<and> cols m' = 5 \<and> cols b' = 5)"
proof -
  have a: "dim2 (feats ex_args_mixed) = 5" "label_xml ex_args_mixed = Some ex_label6"
    "label_xml_lengths ex_args_mixed = Some 2" "midi_xml ex_args_mixed = Some ex_midi3"
    "beat_xml ex_args_mixed = Some ex_beat8"
    by (simp_all add: ex_args_mixed_def ex_args_def)
  have w: "wf2 ex_label6" "wf2 ex_midi3" "wf2 ex_beat8"
    by (simp_all add: wf2_def ex_label6_def ex_midi3_def ex_beat8_def)
  have c: "cols ex_label6 = 6" "cols ex_midi3 = 3"
    by (simp_all add: ex_label6_def ex_midi3_def)
  have f: "forward ex_lib ex_generator ex_args_mixed ex_world =
     forward_networks ex_lib ex_generator ex_args_mixed
       (\<lparr> rows = 2, cols = 5, vals2 = [[7, 8, 9, 1, 2], [4, 5, 6, 0, 0]] \<rparr>,
        [3, 2],
        \<lparr> rows = 2, cols = 3, vals2 = [[60, 62, 64], [65, 67, 0]] \<rparr>,
        \<lparr> rows = 2, cols = 5, vals2 = [[1, 1, 2, 2, 1], [2, 2, 1, 0, 0]] \<rparr>)
       (ex_world\<lparr> heap := ex_heap(2 := [3, 2]) \<rparr>)"
    using ex_mixed_block by (simp add: forward_def bnd_def a ex_midi3_def)
  have n: "\<not> (\<forall>l' ls' m' b' w'.
        reconcile_xml (dim2 (feats ex_args_mixed)) (label_xml ex_args_mixed)
          (label_xml_lengths ex_args_mixed) (midi_xml ex_args_mixed) (beat_xml ex_args_mixed)
          ex_world = (Inr (l', ls', m', b'), w') \<longrightarrow>
        l' = spec_pad_or_truncate 5 ex_label6 \<and> m' = spec_pad_or_truncate 5 ex_midi3 \<and>
        b' = spec_pad_or_truncate 5 ex_beat8 \<and>
        cols l' = 5 \<and> cols m' = 5 \<and> cols b' = 5)"
    unfolding a using ex_mixed_block c by auto
  from a(1) w c f n show ?thesis by blast
qed

subsection \<open>The caller's buffers and the optional arguments\<close>

lemma bnd_keeps_heap:
  assumes "\<And>w. heap (snd (m w)) = heap w" and "\<And>x w. heap (snd (f x w)) = heap w"
  shows "heap (snd (bnd m f w)) = heap w"
proof (cases "m w")
  case (Pair v w')
  then have "heap w' = heap w" using assms(1)[of w] by simp
  then show ?thesis using Pair assms(2) by (cases v) (simp_all add: bnd_def)
qed

lemma call_keeps_heap: "heap (snd (call c w)) = heap w"
  by (simp add: call_def split: prod.splits)

lemma lift_keeps_heap: "heap (snd (lift v w)) = heap w"
  by (simp add: lift_def)

lemma ret_keeps_heap: "heap (snd (ret x w)) = heap w"
  by (simp add: ret_def)

lemma read_buf_keeps_heap: "heap (snd (read_buf a w)) = heap w"
  by (simp add: read_buf_def)

lemma forward_networks_keeps_heap: "heap (snd (forward_networks L G A x w)) = heap w"
  unfolding forward_networks_def
  by (auto split: prod.splits
      intro!: bnd_keeps_heap call_keeps_heap lift_keeps_heap ret_keeps_heap read_buf_keeps_heap)

lemma correct_lengths_None:
  "correct_lengths None T ls i buf = (if ls = [] then Inr buf else Inl AttributeError)"
  by (cases ls) simp_all

lemma reconcile_xml_heap_other:
  "label_xml_lengths' \<noteq> Some a \<Longrightarrow>
   heap (snd (reconcile_xml T lx label_xml_lengths' mx bx w)) a = heap w a"
  by (cases label_xml_lengths'; cases lx)
     (auto simp: reconcile_xml_def raise_def bnd_def read_buf_def lift_def write_buf_def ret_def
        correct_lengths_None correct_lengths_spec split: sum.splits prod.splits)

lemma forward_heap_of_reconcile:
  "heap (snd (forward L G A w)) =
   heap (snd (reconcile_xml (dim2 (feats A)) (label_xml A) (label_xml_lengths A)
                (midi_xml A) (beat_xml A) w))"
proof (cases "reconcile_xml (dim2 (feats A)) (label_xml A) (label_xml_lengths A)
                (midi_xml A) (beat_xml A) w")
  case (Pair v w')
  then show ?thesis
    by (cases v) (simp_all add: forward_def bnd_def forward_networks_keeps_heap)
qed

lemma reconcile_xml_after_write:
  "reconcile_xml T (Some lx) (Some a) mx bx w =
     bnd (lift (pad_or_truncate T (Some lx) mx bx))
         (\<lambda>(l', m', b'). ret (l', spec_corrected_lengths (cols lx) T (heap w a), m', b'))
         (w\<lparr> heap := (heap w)(a := spec_corrected_lengths (cols lx) T (heap w a)) \<rparr>)"
  by (simp add: reconcile_xml_def bnd_def read_buf_def lift_def write_buf_def correct_lengths_spec)

lemma reconcile_xml_label_None:
  "heap (snd (reconcile_xml T None la mx bx w)) = heap w"
  by (cases la)
     (auto simp: reconcile_xml_def raise_def bnd_def read_buf_def lift_def write_buf_def ret_def
        correct_lengths_None pad_or_truncate_def split: sum.splits prod.splits)

text \<open>
  Claim C8. \<open>forward\<close> writes to the caller's \<open>label_xml_lengths\<close> buffer and to no
  other address: a buffer at any other address is as it was; with \<open>label_xml\<close> given,
  the buffer holds afterwards (also when the pass raises later) its old entries with
  every entry equal to the padded width of \<open>label_xml\<close> replaced by the feature length;
  and the write comes first: the padding of the streams and all networks, the
  encoder included, run in the world that already holds the new buffer.
\<close>

theorem forward_writes_only_label_xml_lengths:
  "(\<forall>a. label_xml_lengths A \<noteq> Some a \<longrightarrow> heap (snd (forward L G A w)) a = heap w a) \<and>
   (label_xml A = None \<longrightarrow> heap (snd (forward L G A w)) = heap w) \<and>
   (\<forall>a lx. label_xml_lengths A = Some a \<and> label_xml A = Some lx \<longrightarrow>
      heap (snd (forward L G A w)) =
        (heap w)(a := spec_corrected_lengths (cols lx) (dim2 (feats A)) (heap w a)) \<and>
      forward L G A w =
        bnd (lift (pad_or_truncate (dim2 (feats A)) (Some lx) (midi_xml A) (beat_xml A)))
            (\<lambda>(l', m', b'). forward_networks L G A
               (l', spec_corrected_lengths (cols lx) (dim2 (feats A)) (heap w a), m', b'))
            (w\<lparr> heap := (heap w)(a := spec_corrected_lengths (cols lx) (dim2 (feats A)) (heap w a)) \<rparr>))"
proof (intro conjI allI impI)
  fix a assume "label_xml_lengths A \<noteq> Some a"
  then show "heap (snd (forward L G A w)) a = heap w a"
    by (simp add: forward_heap_of_reconcile reconcile_xml_heap_other)
next
  assume "label_xml A = None"
  then show "heap (snd (forward L G A w)) = heap w"
    by (simp add: forward_heap_of_reconcile reconcile_xml_label_None)
next
  fix a lx assume h: "label_xml_lengths A = Some a \<and> label_xml A = Some lx"
  let ?T = "dim2 (feats A)"
  let ?ls = "spec_corrected_lengths (cols lx) ?T (heap w a)"
  show "heap (snd (forward L G A w)) = (heap w)(a := ?ls)"
    using h
    by (simp add: forward_heap_of_reconcile reconcile_xml_after_write bnd_def lift_def ret_def
        split: sum.splits prod.splits)
  show "forward L G A w =
        bnd (lift (pad_or_truncate ?T (Some lx) (midi_xml A) (beat_xml A)))
            (\<lambda>(l', m', b'). forward_networks L G A (l', ?ls, m', b'))
            (w\<lparr> heap := (heap w)(a := ?ls) \<rparr>)"
    using h
    by (simp add: forward_def reconcile_xml_after_write bnd_def lift_def ret_def
        split: sum.splits prod.splits)
qed

theorem forward_writes_only_label_xml_lengths_witness:
  "label_xml_lengths ex_args = Some 2 \<and> label_xml ex_args = Some ex_xml \<and>
   heap ex_world 2 = [3, 2] \<and>
   heap (snd (forward ex_lib ex_generator ex_args ex_world)) 2 = [5, 2] \<and>
   heap (snd (forward ex_lib ex_generator ex_args ex_world)) 1 = heap ex_world 1 \<and>
   heap (snd (forward ex_lib ex_generator ex_args ex_world)) 3 = heap ex_world 3"
proof -
  have a: "label_xml_lengths ex_args = Some 2 \<and> label_xml ex_args = Some ex_xml"
    by (simp add: ex_args_def)
  have l: "spec_corrected_lengths (cols ex_xml) (dim2 (feats ex_args)) (heap ex_world 2) = [5, 2]"
    by (simp add: spec_corrected_lengths_def ex_xml_def ex_world_def ex_heap_def ex_args_def
        const3_def)
  from forward_writes_only_label_xml_lengths[of ex_args ex_lib ex_generator ex_world]
  have "heap (snd (forward ex_lib ex_generator ex_args ex_world)) =
          (heap ex_world)(2 := spec_corrected_lengths (cols ex_xml) (dim2 (feats ex_args))
             (heap ex_world 2))"
    using a by blast
  then show ?thesis
    using a l by (simp add: ex_world_def ex_heap_def)
qed

lemma pad_or_truncate_missing:
  assumes "midi_xml' = None \<or> beat_xml' = None"
  shows "pad_or_truncate T (Some lx) midi_xml' beat_xml' = Inl AttributeError \<or>
         pad_or_truncate T (Some lx) midi_xml' beat_xml' = Inl TypeError"
  using assms
  by (cases midi_xml'; cases beat_xml')
     (auto simp: pad_or_truncate_def seq_def pad_to_def cut_to_def)

lemma reconcile_xml_missing:
  assumes "lx = None \<or> la = None \<or> mx = None \<or> bx = None"
  shows "fst (reconcile_xml T lx la mx bx w) = Inl TypeError \<or>
         fst (reconcile_xml T lx la mx bx w) = Inl AttributeError"
proof (cases la)
  case None
  then show ?thesis by (simp add: reconcile_xml_def raise_def)
next
  case (Some a)
  show ?thesis
  proof (cases lx)
    case None
    then show ?thesis using Some
      by (simp add: reconcile_xml_def bnd_def read_buf_def lift_def write_buf_def
          correct_lengths_None pad_or_truncate_def)
  next
    case (Some t)
    then have "mx = None \<or> bx = None" using assms \<open>la = Some a\<close> by simp
    from pad_or_truncate_missing[OF this, of T t] show ?thesis
      using Some \<open>la = Some a\<close>
      by (auto simp: reconcile_xml_after_write bnd_def lift_def)
  qed
qed

text \<open>
  Claim C9. \<open>label_xml\<close>, \<open>label_xml_lengths\<close>, \<open>midi_xml\<close> and \<open>beat_xml\<close> default to
  \<open>None\<close>, but when any of them is \<open>None\<close> the pass raises a TypeError or an
  AttributeError and returns nothing.
\<close>

theorem forward_fails_without_xml_arguments:
  assumes "label_xml A = None \<or> label_xml_lengths A = None \<or> midi_xml A = None \<or> beat_xml A = None"
  shows "fst (forward L G A w) = Inl TypeError \<or> fst (forward L G A w) = Inl AttributeError"
proof -
  from reconcile_xml_missing[OF assms, of "dim2 (feats A)" w]
  show ?thesis
    by (cases "reconcile_xml (dim2 (feats A)) (label_xml A) (label_xml_lengths A)
                (midi_xml A) (beat_xml A) w")
       (auto simp: forward_def bnd_def)
qed

theorem forward_fails_without_xml_arguments_witness:
  "midi_xml (ex_args\<lparr> midi_xml := None \<rparr>) = None \<and>
   fst (forward ex_lib ex_generator (ex_args\<lparr> midi_xml := None \<rparr>) ex_world) = Inl AttributeError"
proof -
  have "fst (forward ex_lib ex_generator (ex_args\<lparr> midi_xml := None \<rparr>) ex_world) \<noteq> Inl TypeError"
    by (simp add: forward_def reconcile_xml_after_write bnd_def lift_def ex_args_def
        pad_or_truncate_def ex_xml_def const3_def seq_def pad_to_def)
  then show ?thesis
    using forward_fails_without_xml_arguments[of "ex_args\<lparr> midi_xml := None \<rparr>"
        ex_lib ex_generator ex_world]
    by simp
qed

subsection \<open>The constructor\<close>

lemma seq_Inr: "seq (Inr x) f = f x"
  by (simp add: seq_def)

lemma seq_Inl: "seq (Inl e) f = Inl e"
  by (simp add: seq_def)

lemma guarded_fails:
  "configured v k \<Longrightarrow> gc \<le> 0 \<Longrightarrow> guarded v k gc layer = Inl AssertionError"
  by (cases v) (simp_all add: guarded_def configured_def)

lemma guarded_off:
  "\<not> configured v k \<Longrightarrow> guarded v k gc layer = Inr (None, None)"
  by (cases v) (simp_all add: guarded_def configured_def)

lemma guarded_on:
  "0 < gc \<Longrightarrow> guarded v k gc layer =
     Inr (if configured v k then (v, Some (layer (the v))) else (None, None))"
  by (cases v) (simp_all add: guarded_def configured_def)

lemma not_isl_Inr: "\<not> isl v \<Longrightarrow> \<exists>x. v = Inr x"
  by (cases v) simp_all

lemma networks_buildE:
  assumes "networks_build C cfg"
  obtains te dec pe fl pr dp reg where
    "TextEncoder C cfg = Inr te" "HiFiGANGenerator C cfg = Inr dec"
    "PosteriorEncoder C cfg = Inr pe" "ResidualAffineCouplingBlock C cfg = Inr fl"
    "Projection C (hidden_channels cfg) (hidden_channels cfg) = Inr pr"
    "(if use_sdp cfg then StochasticDurationPredictor C cfg else DurationPredictor C cfg) = Inr dp"
    "LengthRegulator C = Inr reg"
proof -
  from assms not_isl_Inr[of "TextEncoder C cfg"] obtain te where 1: "TextEncoder C cfg = Inr te"
    unfolding networks_build_def by blast
  from assms not_isl_Inr[of "HiFiGANGenerator C cfg"] obtain dec
    where 2: "HiFiGANGenerator C cfg = Inr dec"
    unfolding networks_build_def by blast
  from assms not_isl_Inr[of "PosteriorEncoder C cfg"] obtain pe
    where 3: "PosteriorEncoder C cfg = Inr pe"
    unfolding networks_build_def by blast
  from assms not_isl_Inr[of "ResidualAffineCouplingBlock C cfg"] obtain fl
    where 4: "ResidualAffineCouplingBlock C cfg = Inr fl"
    unfolding networks_build_def by blast
  from assms not_isl_Inr[of "Projection C (hidden_channels cfg) (hidden_channels cfg)"] obtain pr
    where 5: "Projection C (hidden_channels cfg) (hidden_channels cfg) = Inr pr"
    unfolding networks_build_def by blast
  from assms
    not_isl_Inr[of "if use_sdp cfg then StochasticDurationPredictor C cfg else DurationPredictor C cfg"]
  obtain dp where
    6: "(if use_sdp cfg then StochasticDurationPredictor C cfg else DurationPredictor C cfg) = Inr dp"
    unfolding networks_build_def by blast
  from assms not_isl_Inr[of "LengthRegulator C"] obtain reg where 7: "LengthRegulator C = Inr reg"
    unfolding networks_build_def by blast
  from that[OF 1 2 3 4 5 6 7] show ?thesis .
qed

lemma init_chain:
  assumes "TextEncoder C cfg = Inr te" "HiFiGANGenerator C cfg = Inr dec"
    "PosteriorEncoder C cfg = Inr pe" "ResidualAffineCouplingBlock C cfg = Inr fl"
    "Projection C (hidden_channels cfg) (hidden_channels cfg) = Inr pr"
    "(if use_sdp cfg then StochasticDurationPredictor C cfg else DurationPredictor C cfg) = Inr dp"
    "LengthRegulator C = Inr reg"
  shows "init C cfg =
     seq (guarded (spks cfg) 1 (global_channels cfg)
            (\<lambda>n. Embedding C n (global_channels cfg))) (\<lambda>(sp, ge).
     seq (guarded (spk_embed_dim cfg) 0 (global_channels cfg)
            (\<lambda>n. Linear C n (global_channels cfg))) (\<lambda>(sd, sj).
     seq (guarded (langs cfg) 1 (global_channels cfg)
            (\<lambda>n. Embedding C n (global_channels cfg))) (\<lambda>(lg, le).
     seq (import_maximum_path C) (\<lambda>mp.
     Inr \<lparr> self_segment_size = segment_size cfg,
           text_encoder = te, decoder = dec, posterior_encoder = pe, flow = fl,
           project = pr, self_use_sdp = use_sdp cfg, duration_predictor = dp, lr = reg,
           upsample_factor = np_prod (decoder_upsample_scales cfg),
           self_spks = sp, global_emb = ge,
           self_spk_embed_dim = sd, spemb_proj = sj,
           self_langs = lg, lang_emb = le,
           maximum_path = mp \<rparr>))))"
  unfolding init_def by (simp only: assms seq_Inr)

lemma init_assertion:
  assumes "configured (spks cfg) 1 \<or> configured (spk_embed_dim cfg) 0 \<or> configured (langs cfg) 1"
    and "global_channels cfg \<le> 0" and "networks_build C cfg"
  shows "init C cfg = Inl AssertionError"
proof -
  from assms(3) obtain te dec pe fl pr dp reg where n:
    "TextEncoder C cfg = Inr te" "HiFiGANGenerator C cfg = Inr dec"
    "PosteriorEncoder C cfg = Inr pe" "ResidualAffineCouplingBlock C cfg = Inr fl"
    "Projection C (hidden_channels cfg) (hidden_channels cfg) = Inr pr"
    "(if use_sdp cfg then StochasticDurationPredictor C cfg else DurationPredictor C cfg) = Inr dp"
    "LengthRegulator C = Inr reg"
    by (rule networks_buildE)
  show ?thesis
  proof (cases "configured (spks cfg) 1")
    case True
    then show ?thesis
      unfolding init_chain[OF n] using assms(2) by (simp add: guarded_fails seq_Inl)
  next
    case s: False
    show ?thesis
    proof (cases "configured (spk_embed_dim cfg) 0")
      case True
      then show ?thesis
        unfolding init_chain[OF n] using assms(2) s
        by (simp add: guarded_fails guarded_off seq_Inl seq_Inr)
    next
      case False
      then have "configured (langs cfg) 1" using assms(1) s by simp
      then show ?thesis
        unfolding init_chain[OF n] using assms(2) s False
        by (simp add: guarded_fails guarded_off seq_Inl seq_Inr)
    qed
  qed
qed

lemma seq_fails:
  "(\<And>x. v = Inr x \<Longrightarrow> \<exists>e. f x = Inl e) \<Longrightarrow> \<exists>e. seq v f = Inl e"
  by (cases v) (simp_all add: seq_def)

lemma init_fails_early:
  assumes "\<not> networks_build C cfg"
  shows "\<exists>e. init C cfg = Inl e"
  unfolding init_def
  apply (rule seq_fails)+
  using assms unfolding networks_build_def
  apply (simp split: if_splits)
  done

text \<open>
  Claim C4. When a speaker count above 1, a speaker embedding dimension above 0 or a
  language count above 1 is configured and \<open>global_channels\<close> is not positive, the
  constructor raises: an AssertionError once the networks are built (they are built
  first), and whatever a network's constructor raised otherwise. With a positive
  \<open>global_channels\<close>, networks that build and an import that succeeds, the
  constructor returns a generator that holds each configured feature and its layer.
\<close>

theorem init_asserts_global_channels:
  "((configured (spks cfg) 1 \<or> configured (spk_embed_dim cfg) 0 \<or> configured (langs cfg) 1) \<and>
      global_channels cfg \<le> 0 \<longrightarrow>
        (\<exists>e. init C cfg = Inl e) \<and> (networks_build C cfg \<longrightarrow> init C cfg = Inl AssertionError)) \<and>
   (0 < global_channels cfg \<and> networks_build C cfg \<and> \<not> isl (import_maximum_path C) \<longrightarrow>
      (\<exists>G. init C cfg = Inr G \<and>
         (\<forall>n. spks cfg = Some n \<and> 1 < n \<longrightarrow>
            self_spks G = Some n \<and> global_emb G = Some (Embedding C n (global_channels cfg))) \<and>
         (\<forall>n. spk_embed_dim cfg = Some n \<and> 0 < n \<longrightarrow>
            self_spk_embed_dim G = Some n \<and> spemb_proj G = Some (Linear C n (global_channels cfg))) \<and>
         (\<forall>n. langs cfg = Some n \<and> 1 < n \<longrightarrow>
            self_langs G = Some n \<and> lang_emb G = Some (Embedding C n (global_channels cfg)))))"
proof (intro conjI impI)
  assume h: "(configured (spks cfg) 1 \<or> configured (spk_embed_dim cfg) 0 \<or> configured (langs cfg) 1) \<and>
      global_channels cfg \<le> 0"
  show b: "networks_build C cfg \<Longrightarrow> init C cfg = Inl AssertionError"
    using h by (simp add: init_assertion)
  show "\<exists>e. init C cfg = Inl e"
    using b init_fails_early[of C cfg] by (cases "networks_build C cfg") blast+
next
  assume h: "0 < global_channels cfg \<and> networks_build C cfg \<and> \<not> isl (import_maximum_path C)"
  then obtain mp where mp: "import_maximum_path C = Inr mp"
    by (cases "import_maximum_path C") simp_all
  from h have "networks_build C cfg" by simp
  then obtain te dec pe fl pr dp reg where n:
    "TextEncoder C cfg = Inr te" "HiFiGANGenerator C cfg = Inr dec"
    "PosteriorEncoder C cfg = Inr pe" "ResidualAffineCouplingBlock C cfg = Inr fl"
    "Projection C (hidden_channels cfg) (hidden_channels cfg) = Inr pr"
    "(if use_sdp cfg then StochasticDurationPredictor C cfg else DurationPredictor C cfg) = Inr dp"
    "LengthRegulator C = Inr reg"
    by (rule networks_buildE)
  show "\<exists>G. init C cfg = Inr G \<and>
         (\<forall>n. spks cfg = Some n \<and> 1 < n \<longrightarrow>
            self_spks G = Some n \<and> global_emb G = Some (Embedding C n (global_channels cfg))) \<and>
         (\<forall>n. spk_embed_dim cfg = Some n \<and> 0 < n \<longrightarrow>
            self_spk_embed_dim G = Some n \<and> spemb_proj G = Some (Linear C n (global_channels cfg))) \<and>
         (\<forall>n. langs cfg = Some n \<and> 1 < n \<longrightarrow>
            self_langs G = Some n \<and> lang_emb G = Some (Embedding C n (global_channels cfg)))"
    using h unfolding init_chain[OF n] mp
    by (auto simp: guarded_on seq_Inr configured_def split: option.splits)
qed

lemma ex_networks_build: "networks_build ex_classes cfg"
  by (simp add: networks_build_def ex_classes_def)

theorem init_asserts_global_channels_witness:
  "configured (spks (ex_config\<lparr> spks := Some 4 \<rparr>)) 1 \<and>
   global_channels (ex_config\<lparr> spks := Some 4 \<rparr>) \<le> 0 \<and>
   init ex_classes (ex_config\<lparr> spks := Some 4 \<rparr>) = Inl AssertionError \<and>
   0 < global_channels (ex_config\<lparr> spks := Some 4, global_channels := 8 \<rparr>) \<and>
   (\<exists>G. init ex_classes (ex_config\<lparr> spks := Some 4, global_channels := 8 \<rparr>) = Inr G \<and>
        self_spks G = Some 4 \<and> global_emb G = Some (Embedding ex_classes 4 8))"
proof -
  have c: "configured (spks (ex_config\<lparr> spks := Some 4 \<rparr>)) 1"
    "global_channels (ex_config\<lparr> spks := Some 4 \<rparr>) \<le> 0"
    by (simp_all add: configured_def ex_config_def)
  have d: "0 < global_channels (ex_config\<lparr> spks := Some 4, global_channels := 8 \<rparr>)"
    "spks (ex_config\<lparr> spks := Some 4, global_channels := 8 \<rparr>) = Some 4"
    "global_channels (ex_config\<lparr> spks := Some 4, global_channels := 8 \<rparr>) = 8"
    "\<not> isl (import_maximum_path ex_classes)"
    by (simp_all add: ex_config_def ex_classes_def)
  from init_asserts_global_channels[of "ex_config\<lparr> spks := Some 4 \<rparr>" ex_classes] c
    ex_networks_build
  have 1: "init ex_classes (ex_config\<lparr> spks := Some 4 \<rparr>) = Inl AssertionError"
    by blast
  from init_asserts_global_channels[of "ex_config\<lparr> spks := Some 4, global_channels := 8 \<rparr>"
      ex_classes] d ex_networks_build
  have 2: "\<exists>G. init ex_classes (ex_config\<lparr> spks := Some 4, global_channels := 8 \<rparr>) = Inr G \<and>
        self_spks G = Some 4 \<and> global_emb G = Some (Embedding ex_classes 4 8)"
    by (metis zero_less_numeral one_less_numeral_iff semiring_norm(76))
  show ?thesis using c d(1) 1 2 by blast
qed

subsection \<open>What the training pass returns\<close>

lemma forward_after_length_write:
  assumes "label_xml_lengths A = Some a" "label_xml A = Some lx"
  shows "forward L G A w =
        bnd (lift (pad_or_truncate (dim2 (feats A)) (Some lx) (midi_xml A) (beat_xml A)))
            (\<lambda>(l', m', b'). forward_networks L G A
               (l', spec_corrected_lengths (cols lx) (dim2 (feats A)) (heap w a), m', b'))
            (w\<lparr> heap := (heap w)(a := spec_corrected_lengths (cols lx) (dim2 (feats A)) (heap w a)) \<rparr>)"
  using assms
  by (simp add: forward_def reconcile_xml_after_write bnd_def lift_def ret_def
        split: sum.splits prod.splits)

lemma forward_networksE:
  assumes "forward_networks L G A (lx', ls', mx', bx') w = (Inr res, w')"
  obtains x m_p logs_p x_mask r1 g z m_q logs_q y_mask r2 z_p r3 z_segments z_start_idxs r4 wav r5
  where "text_encoder G (Some lx') (Some ls') (Some (ds A)) (Some mx') (Some bx') (rng w) =
           (Inr (x, m_p, logs_p, x_mask), r1)"
    and "global_conditioning L G (sids A) (spembs A) (lids A) = Inr g"
    and "positional_encoding x = Inr ()"
    and "posterior_encoder G (Some (feats A)) (Some (heap w (feats_lengths A))) g r1 =
           (Inr (z, m_q, logs_q, y_mask), r2)"
    and "flow G z y_mask g False r2 = (Inr z_p, r3)"
    and "get_random_segments L z (heap w (feats_lengths A)) (self_segment_size G) r3 =
           (Inr (z_segments, z_start_idxs), r4)"
    and "decoder G z_segments g r4 = (Inr wav, r5)"
    and "res = (wav, z_start_idxs, x_mask, y_mask, [z, z_p, m_p, logs_p, m_q, logs_q])"
    and "w' = w\<lparr> rng := r5 \<rparr>"
  using assms
  unfolding forward_networks_def bnd_def call_def lift_def ret_def read_buf_def
  by (auto split: sum.splits prod.splits)

lemma forward_networks_run:
  assumes "text_encoder G (Some lx') (Some ls') (Some (ds A)) (Some mx') (Some bx') (rng w) =
           (Inr (x, m_p, logs_p, x_mask), r1)"
    and "global_conditioning L G (sids A) (spembs A) (lids A) = Inr g"
    and "positional_encoding x = Inr ()"
    and "posterior_encoder G (Some (feats A)) (Some (heap w (feats_lengths A))) g r1 =
           (Inr (z, m_q, logs_q, y_mask), r2)"
    and "flow G z y_mask g False r2 = (Inr z_p, r3)"
    and "get_random_segments L z (heap w (feats_lengths A)) (self_segment_size G) r3 =
           (Inr (z_segments, z_start_idxs), r4)"
    and "decoder G z_segments g r4 = (Inr wav, r5)"
  shows "forward_networks L G A (lx', ls', mx', bx') w =
    (Inr (wav, z_start_idxs, x_mask, y_mask, [z, z_p, m_p, logs_p, m_q, logs_q]), w\<lparr> rng := r5 \<rparr>)"
  using assms
  unfolding forward_networks_def bnd_def call_def lift_def ret_def read_buf_def
  by simp


lemma pad_or_truncate_total:
  "\<exists>l m b. pad_or_truncate T (Some lx) (Some mx) (Some bx) = Inr (l, m, b)"
  by (simp add: pad_or_truncate_def seq_def pad_to_def cut_to_def)

lemma forward_run:
  assumes "label_xml A = Some lx" and "midi_xml A = Some mx" and "beat_xml A = Some bx"
    and "label_xml_lengths A = Some a"
    and "pad_or_truncate (dim2 (feats A)) (Some lx) (Some mx) (Some bx) = Inr (lx', mx', bx')"
    and "ls' = spec_corrected_lengths (cols lx) (dim2 (feats A)) (heap w a)"
    and "w1 = w\<lparr> heap := (heap w)(a := ls') \<rparr>"
    and "text_encoder G (Some lx') (Some ls') (Some (ds A)) (Some mx') (Some bx') (rng w) =
           (Inr (x, m_p, logs_p, x_mask), r1)"
    and "global_conditioning L G (sids A) (spembs A) (lids A) = Inr g"
    and "positional_encoding x = Inr ()"
    and "posterior_encoder G (Some (feats A)) (Some (heap w1 (feats_lengths A))) g r1 =
           (Inr (z, m_q, logs_q, y_mask), r2)"
    and "flow G z y_mask g False r2 = (Inr z_p, r3)"
    and "get_random_segments L z (heap w1 (feats_lengths A)) (self_segment_size G) r3 =
           (Inr (z_segments, z_start_idxs), r4)"
    and "decoder G z_segments g r4 = (Inr wav, r5)"
  shows "forward L G A w =
           (Inr (wav, z_start_idxs, x_mask, y_mask, [z, z_p, m_p, logs_p, m_q, logs_q]),
            w1\<lparr> rng := r5 \<rparr>)"
proof -
  have r: "rng w1 = rng w" using assms(7) by simp
  have "forward L G A w = forward_networks L G A (lx', ls', mx', bx') w1"
    using forward_after_length_write[of A a lx L G w] assms(1-7)
    by (simp add: bnd_def lift_def)
  also have "\<dots> = (Inr (wav, z_start_idxs, x_mask, y_mask, [z, z_p, m_p, logs_p, m_q, logs_q]),
            w1\<lparr> rng := r5 \<rparr>)"
    by (rule forward_networks_run[OF assms(8)[folded r] assms(9-14)])
  finally show ?thesis .
qed

text \<open>
  Claim C2. On an input for which every network returns, the pass returns, in this
  order, the decoded waveform segment, the segment start indices, the text mask, the
  feature mask and the latents \<open>z\<close>, \<open>z_p\<close>, \<open>m_p\<close>, \<open>logs_p\<close>, \<open>m_q\<close>, \<open>logs_q\<close>; \<open>z\<close>
  and the masks come from the encoders, \<open>z_p\<close> from the flow, the waveform from the
  decoder run on the random segment of \<open>z\<close>. No alignment and no duration loss is
  computed or returned: the value and the final state do not depend on the duration
  predictor, the path search, the length regulator or the projection.
\<close>

theorem forward_returns_five_values:
  assumes "label_xml A = Some lx" and "midi_xml A = Some mx" and "beat_xml A = Some bx"
    and "label_xml_lengths A = Some a"
    and "pad_or_truncate (dim2 (feats A)) (Some lx) (Some mx) (Some bx) = Inr (lx', mx', bx')"
    and "ls' = spec_corrected_lengths (cols lx) (dim2 (feats A)) (heap w a)"
    and "w1 = w\<lparr> heap := (heap w)(a := ls') \<rparr>"
    and "text_encoder G (Some lx') (Some ls') (Some (ds A)) (Some mx') (Some bx') (rng w) =
           (Inr (x, m_p, logs_p, x_mask), r1)"
    and "global_conditioning L G (sids A) (spembs A) (lids A) = Inr g"
    and "positional_encoding x = Inr ()"
    and "posterior_encoder G (Some (feats A)) (Some (heap w1 (feats_lengths A))) g r1 =
           (Inr (z, m_q, logs_q, y_mask), r2)"
    and "flow G z y_mask g False r2 = (Inr z_p, r3)"
    and "get_random_segments L z (heap w1 (feats_lengths A)) (self_segment_size G) r3 =
           (Inr (z_segments, z_start_idxs), r4)"
    and "decoder G z_segments g r4 = (Inr wav, r5)"
  shows "forward L G A w =
           (Inr (wav, z_start_idxs, x_mask, y_mask, [z, z_p, m_p, logs_p, m_q, logs_q]),
            w1\<lparr> rng := r5 \<rparr>) \<and>
         forward L (G\<lparr> duration_predictor := dp, maximum_path := mp, lr := reg, project := pr \<rparr>) A w =
           forward L G A w"
proof -
  have "forward L (G\<lparr> duration_predictor := dp, maximum_path := mp, lr := reg, project := pr \<rparr>) A w =
           forward L G A w"
    by (simp add: forward_def forward_networks_def global_conditioning_def)
  with forward_run[OF assms] show ?thesis by simp
qed

lemma ex_run:
  "label_xml ex_args = Some ex_xml" "midi_xml ex_args = Some ex_xml"
  "beat_xml ex_args = Some ex_xml" "label_xml_lengths ex_args = Some 2"
  "pad_or_truncate (dim2 (feats ex_args)) (Some ex_xml) (Some ex_xml) (Some ex_xml) =
     Inr (ex_padded, ex_padded, ex_padded)"
  "[5, 2] = spec_corrected_lengths (cols ex_xml) (dim2 (feats ex_args)) (heap ex_world 2)"
  "\<lparr> heap = ex_heap(2 := [5, 2]), rng = 0 \<rparr> = ex_world\<lparr> heap := (heap ex_world)(2 := [5, 2]) \<rparr>"
  "text_encoder ex_generator (Some ex_padded) (Some [5, 2]) (Some (ds ex_args)) (Some ex_padded)
     (Some ex_padded) (rng ex_world) =
     (Inr (const3 2 2 5 0, ex_m_p, const3 2 2 5 0, const3 2 1 5 1), 0)"
  "global_conditioning ex_lib ex_generator (sids ex_args) (spembs ex_args) (lids ex_args) = Inr None"
  "posterior_encoder ex_generator (Some (feats ex_args))
     (Some (heap \<lparr> heap = ex_heap(2 := [5, 2]), rng = 0::nat \<rparr> (feats_lengths ex_args))) None 0 =
     (Inr (ex_z, const3 2 2 5 0, const3 2 2 5 0, const3 2 1 5 1), 1)"
  "flow ex_generator ex_z (const3 2 1 5 1) None False 1 = (Inr ex_z_p, 1)"
  "get_random_segments ex_lib ex_z
     (heap \<lparr> heap = ex_heap(2 := [5, 2]), rng = 0::nat \<rparr> (feats_lengths ex_args))
     (self_segment_size ex_generator) 1 = (Inr (ex_z_segments, [0, 0]), 2)"
  "decoder ex_generator ex_z_segments None 2 = (Inr ex_wav, 2)"
  by (simp_all add: ex_args_def ex_xml_def ex_padded_def pad_or_truncate_def seq_def pad_to_def
      pad_right_def pad_row_def spec_corrected_lengths_def ex_world_def ex_heap_def
      ex_generator_def ex_text_encoder_def const3_def ex_m_p_def global_conditioning_def
      index_embedding_def speaker_embedding_def
      ex_posterior_encoder_def ex_z_def ex_flow_def map3_def ex_z_p_def ex_lib_def
      ex_segments_def ex_z_segments_def ex_decoder_def ex_wav_def numeral_eq_Suc)

lemma ex_positional_encoding: "positional_encoding (const3 2 2 5 (0::int)) = Inr ()"
  by (simp add: positional_encoding_def const3_def bdim_def)

theorem forward_returns_five_values_witness:
  "forward ex_lib ex_generator ex_args ex_world =
     (Inr (ex_wav, [0, 0], const3 2 1 5 1, const3 2 1 5 1,
           [ex_z, ex_z_p, ex_m_p, const3 2 2 5 0, const3 2 2 5 0, const3 2 2 5 0]),
      \<lparr> heap = ex_heap(2 := [5, 2]), rng = 2 \<rparr>)"
  using forward_returns_five_values[OF ex_run(1-9) ex_positional_encoding ex_run(10-13)] by simp


lemma positional_encoding_ok:
  "positional_encoding x = Inr () \<longleftrightarrow> dim1 x = 1 \<or> (0 < dim1 x \<and> even (dim1 x))"
proof -
  have "(dim1 x + 1) div 2 = dim1 x div 2 \<longleftrightarrow> even (dim1 x)" by presburger
  moreover have "(dim1 x + 1) div 2 = 1 \<longleftrightarrow> dim1 x = 1 \<or> dim1 x = 2" by presburger
  ultimately show ?thesis
    by (auto simp: positional_encoding_def bdim_def Let_def)
qed

lemma np_prod_exact:
  assumes "- (2 ^ 63) \<le> prod_list xs" and "prod_list xs < 2 ^ 63"
  shows "np_prod xs = prod_list xs"
  using assms by (simp add: np_prod_def sint_sbintrunc' signed_take_bit_int_eq_self)

lemma init_fields:
  assumes "init C cfg = Inr G"
  shows "self_segment_size G = segment_size cfg \<and>
         upsample_factor G = np_prod (decoder_upsample_scales cfg)"
  using assms unfolding init_def seq_def
  by (auto split: sum.splits prod.splits)

lemma forward_InrE:
  assumes "forward L G A w = (Inr res, w')"
  obtains inp w1 where "forward_networks L G A inp w1 = (Inr res, w')"
  using assms unfolding forward_def bnd_def
  by (auto split: sum.splits prod.splits)

text \<open>
  Claim C3, amended. Let the generator come from the constructor, let the decoder
  lengthen its input by the product of the configured upsample scales, let the random
  segments be \<open>segment_size\<close> frames long, let the networks keep \<open>hidden_channels\<close>
  channels, and let the product of the scales fit 64 signed bits. Then a pass that
  returns gives a waveform of \<open>segment_size * upsample_factor\<close> samples, where
  \<open>upsample_factor\<close> is the product of the scales, and six latents, each with
  \<open>hidden_channels\<close> channels.
\<close>

theorem forward_shapes:
  assumes "init C cfg = Inr G"
    and "decoder_contract (decoder_upsample_scales cfg) (decoder G)"
    and "segments_contract (get_random_segments L)"
    and "channel_contract (hidden_channels cfg) G"
    and "- (2 ^ 63) \<le> prod_list (decoder_upsample_scales cfg)"
    and "prod_list (decoder_upsample_scales cfg) < 2 ^ 63"
    and "forward L G A w = (Inr (wav, z_start_idxs, x_mask, y_mask, latents), w')"
  shows "int (dim2 wav) = segment_size cfg * upsample_factor G \<and>
         upsample_factor G = prod_list (decoder_upsample_scales cfg) \<and>
         length latents = 6 \<and>
         list_all (\<lambda>t. int (dim1 t) = hidden_channels cfg) latents"
proof -
  from assms(7) obtain inp w1 where
    n: "forward_networks L G A inp w1 = (Inr (wav, z_start_idxs, x_mask, y_mask, latents), w')"
    by (rule forward_InrE)
  obtain lx' ls' mx' bx' where inp: "inp = (lx', ls', mx', bx')" by (cases inp) auto
  from n[unfolded inp] obtain x m_p logs_p r1 g z m_q logs_q r2 z_p r3 z_segments r4 r5 where
    te: "text_encoder G (Some lx') (Some ls') (Some (ds A)) (Some mx') (Some bx') (rng w1) =
           (Inr (x, m_p, logs_p, x_mask), r1)"
    and pe: "posterior_encoder G (Some (feats A)) (Some (heap w1 (feats_lengths A))) g r1 =
           (Inr (z, m_q, logs_q, y_mask), r2)"
    and fl: "flow G z y_mask g False r2 = (Inr z_p, r3)"
    and sg: "get_random_segments L z (heap w1 (feats_lengths A)) (self_segment_size G) r3 =
           (Inr (z_segments, z_start_idxs), r4)"
    and dc: "decoder G z_segments g r4 = (Inr wav, r5)"
    and lat: "latents = [z, z_p, m_p, logs_p, m_q, logs_q]"
    by (rule forward_networksE) auto
  have up: "upsample_factor G = prod_list (decoder_upsample_scales cfg)"
    using init_fields[OF assms(1)] np_prod_exact[OF assms(5,6)] by simp
  have seg: "int (dim2 z_segments) = segment_size cfg"
    using assms(3)[unfolded segments_contract_def, rule_format, OF sg] init_fields[OF assms(1)]
    by simp
  have "int (dim2 wav) = int (dim2 z_segments) * prod_list (decoder_upsample_scales cfg)"
    by (rule assms(2)[unfolded decoder_contract_def, rule_format, OF dc])
  then have wav: "int (dim2 wav) = segment_size cfg * upsample_factor G"
    using seg up by simp
  have c1: "int (dim1 m_p) = hidden_channels cfg \<and> int (dim1 logs_p) = hidden_channels cfg"
    by (rule assms(4)[unfolded channel_contract_def, THEN conjunct1, rule_format, OF te])
  have c2: "int (dim1 z) = hidden_channels cfg \<and> int (dim1 m_q) = hidden_channels cfg \<and>
            int (dim1 logs_q) = hidden_channels cfg"
    by (rule assms(4)[unfolded channel_contract_def, THEN conjunct2, THEN conjunct1,
          rule_format, OF pe])
  have c3: "dim1 z_p = dim1 z"
    by (rule assms(4)[unfolded channel_contract_def, THEN conjunct2, THEN conjunct2,
          rule_format, OF fl])
  show ?thesis
    using wav up c1 c2 c3 by (simp add: lat)
qed


lemma ex_forward:
  "forward ex_lib ex_generator ex_args ex_world =
     (Inr (ex_wav, [0, 0], const3 2 1 5 1, const3 2 1 5 1,
           [ex_z, ex_z_p, ex_m_p, const3 2 2 5 0, const3 2 2 5 0, const3 2 2 5 0]),
      \<lparr> heap = ex_heap(2 := [5, 2]), rng = 2 \<rparr>)"
  using forward_run[OF ex_run(1-9) ex_positional_encoding ex_run(10-13)] by simp

lemma ex_init: "init ex_classes ex_config = Inr ex_generator"
  by (simp add: init_def seq_def ex_classes_def ex_config_def ex_generator_def guarded_def
      np_prod_def)

lemma ex_decoder_contract: "decoder_contract [2, 2] (decoder ex_generator)"
  by (auto simp: decoder_contract_def ex_generator_def ex_decoder_def)

lemma ex_segments_contract: "segments_contract (get_random_segments ex_lib)"
  by (auto simp: segments_contract_def ex_lib_def ex_segments_def split: if_splits)

lemma ex_channel_contract: "channel_contract 2 ex_generator"
  by (auto simp: channel_contract_def ex_generator_def ex_text_encoder_def
      ex_posterior_encoder_def ex_flow_def map3_def const3_def split: option.splits)

text \<open>
  Claim C3, as stated: the latents are said to be five. The pass returns six, here on
  a run where the waveform has the promised length and all channel counts agree.
\<close>

theorem forward_latents_are_not_five:
  "\<not> (\<forall>wav z_start_idxs x_mask y_mask latents w'.
        forward ex_lib ex_generator ex_args ex_world =
          (Inr (wav, z_start_idxs, x_mask, y_mask, latents), w') \<longrightarrow>
        int (dim2 wav) = segment_size ex_config * upsample_factor ex_generator \<and>
        length latents = 5 \<and>
        list_all (\<lambda>t. int (dim1 t) = hidden_channels ex_config) latents)"
  using ex_forward by simp

theorem forward_shapes_witness:
  "init ex_classes ex_config = Inr ex_generator \<and>
   forward ex_lib ex_generator ex_args ex_world =
     (Inr (ex_wav, [0, 0], const3 2 1 5 1, const3 2 1 5 1,
           [ex_z, ex_z_p, ex_m_p, const3 2 2 5 0, const3 2 2 5 0, const3 2 2 5 0]),
      \<lparr> heap = ex_heap(2 := [5, 2]), rng = 2 \<rparr>) \<and>
   segment_size ex_config = 2 \<and> upsample_factor ex_generator = 4 \<and> dim2 ex_wav = 8 \<and>
   length [ex_z, ex_z_p, ex_m_p, const3 2 2 5 0, const3 2 2 5 0, const3 2 2 5 (0::int)] = 6 \<and>
   list_all (\<lambda>t. int (dim1 t) = 2)
     [ex_z, ex_z_p, ex_m_p, const3 2 2 5 0, const3 2 2 5 0, const3 2 2 5 (0::int)]"
proof -
  have s: "decoder_upsample_scales ex_config = [2, 2]" "hidden_channels ex_config = 2"
    "segment_size ex_config = 2"
    by (simp_all add: ex_config_def)
  have r: "- (2 ^ 63) \<le> prod_list (decoder_upsample_scales ex_config)"
    "prod_list (decoder_upsample_scales ex_config) < 2 ^ 63"
    by (simp_all add: s)
  from forward_shapes[OF ex_init ex_decoder_contract[folded s(1)] ex_segments_contract
      ex_channel_contract[folded s(2)] r ex_forward]
  show ?thesis
    using ex_init ex_forward s by (simp add: ex_wav_def)
qed

subsection \<open>Inference without teacher forcing\<close>

lemma wf3_rows:
  assumes "wf3 t" "i < dim0 t"
  shows "length (vals3 t ! i) = dim1 t"
    and "j < dim1 t \<Longrightarrow> length (vals3 t ! i ! j) = dim2 t"
  using assms by (auto simp: wf3_def list_all_length)

lemma wf3_length: "wf3 t \<Longrightarrow> length (vals3 t) = dim0 t"
  by (simp add: wf3_def)

lemma tabulate3_eqI:
  assumes "length v = b"
    and "\<And>i. i < b \<Longrightarrow> length (v ! i) = c"
    and "\<And>i j. i < b \<Longrightarrow> j < c \<Longrightarrow> length (v ! i ! j) = t"
    and "\<And>i j k. i < b \<Longrightarrow> j < c \<Longrightarrow> k < t \<Longrightarrow> v ! i ! j ! k = f i j k"
  shows "\<lparr> dim0 = b, dim1 = c, dim2 = t, vals3 = v \<rparr> = tabulate3 b c t f"
proof -
  have "v = map (\<lambda>i. map (\<lambda>j. map (\<lambda>k. f i j k) [0..<t]) [0..<c]) [0..<b]"
    using assms by (auto simp: list_eq_iff_nth_eq)
  then show ?thesis by (simp add: tabulate3_def)
qed

lemma wf3_tabulate3: "wf3 (tabulate3 b c t f)"
  by (simp add: wf3_def tabulate3_def list_all_iff)

lemma dims_tabulate3:
  "dim0 (tabulate3 b c t f) = b" "dim1 (tabulate3 b c t f) = c" "dim2 (tabulate3 b c t f) = t"
  by (simp_all add: tabulate3_def)

lemma at3_tabulate3:
  "i < b \<Longrightarrow> j < c \<Longrightarrow> k < t \<Longrightarrow> at3 (tabulate3 b c t f) i j k = f i j k"
  by (simp add: at3_def tabulate3_def)

lemma bzip_same: "bzip f n n = map2 f"
  by (rule ext, rule ext) (simp add: bzip_def)

lemma broadcast3_same_shape:
  assumes "wf3 a" "wf3 b" "dim0 b = dim0 a" "dim1 b = dim1 a" "dim2 b = dim2 a"
  shows "broadcast3 f a b =
           Inr (tabulate3 (dim0 a) (dim1 a) (dim2 a) (\<lambda>i j k. f (at3 a i j k) (at3 b i j k)))"
proof -
  have "\<lparr> dim0 = dim0 a, dim1 = dim1 a, dim2 = dim2 a,
          vals3 = map2 (map2 (map2 f)) (vals3 a) (vals3 b) \<rparr> =
        tabulate3 (dim0 a) (dim1 a) (dim2 a) (\<lambda>i j k. f (at3 a i j k) (at3 b i j k))"
  proof (rule tabulate3_eqI)
    show "length (map2 (map2 (map2 f)) (vals3 a) (vals3 b)) = dim0 a"
      using assms by (simp add: wf3_length)
  next
    fix i assume "i < dim0 a"
    then show "length (map2 (map2 (map2 f)) (vals3 a) (vals3 b) ! i) = dim1 a"
      using assms by (simp add: wf3_length wf3_rows)
  next
    fix i j assume "i < dim0 a" "j < dim1 a"
    then show "length (map2 (map2 (map2 f)) (vals3 a) (vals3 b) ! i ! j) = dim2 a"
      using assms by (simp add: wf3_length wf3_rows)
  next
    fix i j k assume "i < dim0 a" "j < dim1 a" "k < dim2 a"
    then show "map2 (map2 (map2 f)) (vals3 a) (vals3 b) ! i ! j ! k = f (at3 a i j k) (at3 b i j k)"
      using assms by (simp add: wf3_length wf3_rows at3_def)
  qed
  then show ?thesis
    using assms by (simp add: broadcast3_def bdim_def bzip_same)
qed

lemma broadcast3_mask:
  assumes "wf3 z" "wf3 m" "dim0 m = dim0 z" "dim1 m = 1" "dim2 m = dim2 z"
  shows "broadcast3 f z m =
           Inr (tabulate3 (dim0 z) (dim1 z) (dim2 z) (\<lambda>i j k. f (at3 z i j k) (at3 m i 0 k)))"
proof -
  define v where "v = bzip (bzip (bzip f (dim2 z) (dim2 m)) (dim1 z) (dim1 m)) (dim0 z) (dim0 m)
              (vals3 z) (vals3 m)"
  have row: "v ! i = map (\<lambda>r. map2 f r (vals3 m ! i ! 0)) (vals3 z ! i)" if i: "i < dim0 z" for i
  proof -
    have lm: "length (vals3 m ! i) = 1" using assms i wf3_rows(1)[of m i] by simp
    then obtain r where r: "vals3 m ! i = [r]"
      by (cases "vals3 m ! i") simp_all
    have lz: "length (vals3 z ! i) = dim1 z" using assms i by (simp add: wf3_rows)
    have "v ! i = bzip (map2 f) (dim1 z) 1 (vals3 z ! i) (vals3 m ! i)"
      using assms i by (simp add: v_def bzip_same wf3_length)
    also have "\<dots> = map (\<lambda>x. map2 f x r) (vals3 z ! i)"
    proof (cases "dim1 z = 1")
      case True
      then obtain x where "vals3 z ! i = [x]"
        using lz by (cases "vals3 z ! i") simp_all
      then show ?thesis using True r by (simp add: bzip_def)
    next
      case False
      then show ?thesis using r by (simp add: bzip_def)
    qed
    finally show ?thesis using r by simp
  qed
  have len: "length v = dim0 z"
    using assms by (simp add: v_def bzip_same wf3_length)
  have mrow: "length (vals3 m ! i ! 0) = dim2 z" if "i < dim0 z" for i
    using assms that wf3_rows(2)[of m i 0] by simp
  have "\<lparr> dim0 = dim0 z, dim1 = dim1 z, dim2 = dim2 z, vals3 = v \<rparr> =
        tabulate3 (dim0 z) (dim1 z) (dim2 z) (\<lambda>i j k. f (at3 z i j k) (at3 m i 0 k))"
  proof (rule tabulate3_eqI)
    show "length v = dim0 z" by (rule len)
  next
    fix i assume "i < dim0 z"
    then show "length (v ! i) = dim1 z"
      using assms(1) by (simp add: row wf3_rows)
  next
    fix i j assume "i < dim0 z" "j < dim1 z"
    then show "length (v ! i ! j) = dim2 z"
      using assms(1) by (simp add: row wf3_rows mrow)
  next
    fix i j k assume "i < dim0 z" "j < dim1 z" "k < dim2 z"
    then show "v ! i ! j ! k = f (at3 z i j k) (at3 m i 0 k)"
      using assms(1) by (simp add: row wf3_rows mrow at3_def)
  qed
  moreover have "bdim (dim1 z) 1 = Some (dim1 z)" by (simp add: bdim_def)
  ultimately show ?thesis
    using assms(3-5) by (simp add: broadcast3_def bdim_def v_def)
qed

lemma draws_length: "length (fst (draws d n r)) = n"
proof (induction n arbitrary: r)
  case 0
  then show ?case by simp
next
  case (Suc n)
  obtain v r' where d: "d r = (v, r')" by (cases "d r")
  obtain vs r'' where ds: "draws d n r' = (vs, r'')" by (cases "draws d n r'")
  have "length vs = n" using Suc[of r'] ds by simp
  then show ?case using d ds by simp
qed

lemma draws_all:
  assumes "\<And>r. P (fst (d r))"
  shows "list_all P (fst (draws d n r))"
proof (induction n arbitrary: r)
  case 0
  then show ?case by simp
next
  case (Suc n)
  obtain v r' where d: "d r = (v, r')" by (cases "d r")
  obtain vs r'' where ds: "draws d n r' = (vs, r'')" by (cases "draws d n r'")
  have "P v" using assms[of r] d by simp
  moreover have "list_all P vs" using Suc[of r'] ds by simp
  ultimately show ?case using d ds by simp
qed

lemma randn_like_shape:
  assumes "randn_like L t r = (Inr eps, r')"
  shows "wf3 eps \<and> dim0 eps = dim0 t \<and> dim1 eps = dim1 t \<and> dim2 eps = dim2 t"
proof -
  let ?d1 = "draws (randn L) (dim2 t)"
  let ?d2 = "draws ?d1 (dim1 t)"
  have "list_all (\<lambda>m. length m = dim1 t \<and> list_all (\<lambda>row. length row = dim2 t) m)
          (fst (draws ?d2 (dim0 t) r))"
    by (rule draws_all) (simp add: draws_length draws_all)
  then show ?thesis
    using assms draws_length[of ?d2 "dim0 t" r]
    by (auto simp: randn_like_def wf3_def split: prod.splits)
qed

lemma randn_like_total: "\<exists>eps r'. randn_like L t r = (Inr eps, r')"
  by (simp add: randn_like_def split: prod.splits)

lemma wf3_map3: "wf3 t \<Longrightarrow> wf3 (map3 f t)"
  by (simp add: wf3_def map3_def list_all_iff)

lemma dims_map3: "dim0 (map3 f t) = dim0 t" "dim1 (map3 f t) = dim1 t" "dim2 (map3 f t) = dim2 t"
  by (simp_all add: map3_def)

lemma at3_map3:
  "wf3 t \<Longrightarrow> i < dim0 t \<Longrightarrow> j < dim1 t \<Longrightarrow> k < dim2 t \<Longrightarrow> at3 (map3 f t) i j k = f (at3 t i j k)"
  by (simp add: at3_def map3_def wf3_length wf3_rows)

lemma map3_tabulate3: "map3 g (tabulate3 b c t f) = tabulate3 b c t (\<lambda>i j k. g (f i j k))"
  by (simp add: map3_def tabulate3_def comp_def)

lemma tabulate3_cong:
  assumes "\<And>i j k. i < b \<Longrightarrow> j < c \<Longrightarrow> k < t \<Longrightarrow> f i j k = g i j k"
  shows "tabulate3 b c t f = tabulate3 b c t g"
  using assms by (simp add: tabulate3_def)

lemma prior_sample_steps:
  assumes "wf3 m_p" "wf3 logs_p" "wf3 eps"
    and "dim0 logs_p = dim0 m_p" "dim1 logs_p = dim1 m_p" "dim2 logs_p = dim2 m_p"
    and "dim0 eps = dim0 m_p" "dim1 eps = dim1 m_p" "dim2 eps = dim2 m_p"
  shows "seq (broadcast3 (fmul L) eps (map3 (fexp L) logs_p))
           (\<lambda>t. broadcast3 (fadd L) m_p (map3 (\<lambda>v. fmul L v s) t)) =
         Inr (spec_prior_sample L s m_p eps logs_p)"
proof -
  let ?t = "tabulate3 (dim0 m_p) (dim1 m_p) (dim2 m_p)
              (\<lambda>i j k. fmul L (at3 eps i j k) (fexp L (at3 logs_p i j k)))"
  have 1: "broadcast3 (fmul L) eps (map3 (fexp L) logs_p) = Inr ?t"
  proof -
    have "broadcast3 (fmul L) eps (map3 (fexp L) logs_p) =
          Inr (tabulate3 (dim0 eps) (dim1 eps) (dim2 eps)
                (\<lambda>i j k. fmul L (at3 eps i j k) (at3 (map3 (fexp L) logs_p) i j k)))"
      using assms by (intro broadcast3_same_shape) (simp_all add: wf3_map3 dims_map3)
    also have "tabulate3 (dim0 eps) (dim1 eps) (dim2 eps)
                (\<lambda>i j k. fmul L (at3 eps i j k) (at3 (map3 (fexp L) logs_p) i j k)) = ?t"
      unfolding assms(7-9) using assms(2,4-6) by (intro tabulate3_cong) (simp add: at3_map3)
    finally show ?thesis .
  qed
  let ?u = "tabulate3 (dim0 m_p) (dim1 m_p) (dim2 m_p)
              (\<lambda>i j k. fmul L (fmul L (at3 eps i j k) (fexp L (at3 logs_p i j k))) s)"
  have 2: "map3 (\<lambda>v. fmul L v s) ?t = ?u" by (simp add: map3_tabulate3)
  have 3: "broadcast3 (fadd L) m_p ?u = Inr (spec_prior_sample L s m_p eps logs_p)"
  proof -
    have "broadcast3 (fadd L) m_p ?u =
          Inr (tabulate3 (dim0 m_p) (dim1 m_p) (dim2 m_p)
                (\<lambda>i j k. fadd L (at3 m_p i j k) (at3 ?u i j k)))"
      using assms(1) by (intro broadcast3_same_shape) (simp_all add: wf3_tabulate3 dims_tabulate3)
    also have "tabulate3 (dim0 m_p) (dim1 m_p) (dim2 m_p)
                (\<lambda>i j k. fadd L (at3 m_p i j k) (at3 ?u i j k)) =
               spec_prior_sample L s m_p eps logs_p"
      unfolding spec_prior_sample_def by (intro tabulate3_cong) (simp add: at3_tabulate3)
    finally show ?thesis .
  qed
  show ?thesis by (simp add: 1 2 3 seq_def)
qed


lemma py_stop_le: "py_stop n m \<le> n"
  by (auto simp: py_stop_def split: option.splits)

lemma slice_time_None: "wf3 t \<Longrightarrow> slice_time None t = t"
proof -
  assume w: "wf3 t"
  have "map (map (take (dim2 t))) (vals3 t) = vals3 t"
    using w by (intro map_idI) (auto simp: wf3_def list_all_iff)
  then show ?thesis by (simp add: slice_time_def py_stop_def)
qed

lemma at3_slice_time:
  assumes "wf3 t" "i < dim0 t" "j < dim1 t" "k < py_stop (dim2 t) m"
  shows "at3 (slice_time m t) i j k = at3 t i j k"
  using assms by (simp add: at3_def slice_time_def wf3_length wf3_rows)

lemma free_running_run:
  assumes "\<not> use_teacher_forcing A"
    and "text_encoder G (inf_label_xml A) (inf_label_xml_lengths A) None (inf_midi_xml A)
           (inf_beat_xml A) (rng w) = (Inr (x, m_p, logs_p, x_mask), r1)"
    and "global_conditioning L G (inf_sids A) (map_option unsqueeze_first (inf_spembs A))
           (inf_lids A) = Inr g"
    and "wf3 m_p" and "wf3 logs_p"
    and "dim0 logs_p = dim0 m_p" and "dim1 logs_p = dim1 m_p" and "dim2 logs_p = dim2 m_p"
    and "randn_like L m_p r1 = (Inr eps, r2)"
    and "flow G (spec_prior_sample L (noise_scale A) m_p eps logs_p) x_mask g True r2 = (Inr z, r3)"
    and "wf3 z" and "wf3 x_mask"
    and "dim0 x_mask = dim0 z" and "dim1 x_mask = 1" and "dim2 x_mask = dim2 z"
    and "decoder G (slice_time (max_len A) (spec_masked L z x_mask)) g r3 = (Inr wav, r4)"
  shows "inference L G A w = (Inr (squeeze1 wav, None, None), w\<lparr> rng := r4 \<rparr>)"
proof -
  have e: "wf3 eps \<and> dim0 eps = dim0 m_p \<and> dim1 eps = dim1 m_p \<and> dim2 eps = dim2 m_p"
    by (rule randn_like_shape[OF assms(9)])
  have s: "seq (broadcast3 (fmul L) eps (map3 (fexp L) logs_p))
           (\<lambda>t. broadcast3 (fadd L) m_p (map3 (\<lambda>v. fmul L v (noise_scale A)) t)) =
         Inr (spec_prior_sample L (noise_scale A) m_p eps logs_p)"
    using e assms(4-8) by (intro prior_sample_steps) simp_all
  obtain t where t: "broadcast3 (fmul L) eps (map3 (fexp L) logs_p) = Inr t"
    "broadcast3 (fadd L) m_p (map3 (\<lambda>v. fmul L v (noise_scale A)) t) =
       Inr (spec_prior_sample L (noise_scale A) m_p eps logs_p)"
    using s by (cases "broadcast3 (fmul L) eps (map3 (fexp L) logs_p)") (simp_all add: seq_def)
  have m: "broadcast3 (fmul L) z x_mask = Inr (spec_masked L z x_mask)"
    unfolding spec_masked_def by (rule broadcast3_mask[OF assms(11-15)])
  show ?thesis
    using assms(1,2,3,9,10,16) t m
    by (simp add: inference_def bnd_def call_def lift_def ret_def)
qed

text \<open>
  Claim C5. With teacher forcing off, the flow-space latent has the shape of the prior
  mean (the encoder's own time axis) and each entry is the prior mean plus noise times
  the exponential of the prior log-scale times \<open>noise_scale\<close>; the inverse flow maps it
  to \<open>z\<close>; \<open>z\<close> is multiplied by the text mask and cut to \<open>max_len\<close> frames (all of them
  for \<open>None\<close>), and the decoder's output, squeezed, is the waveform.
\<close>

theorem inference_free_running:
  assumes "\<not> use_teacher_forcing A"
    and "text_encoder G (inf_label_xml A) (inf_label_xml_lengths A) None (inf_midi_xml A)
           (inf_beat_xml A) (rng w) = (Inr (x, m_p, logs_p, x_mask), r1)"
    and "global_conditioning L G (inf_sids A) (map_option unsqueeze_first (inf_spembs A))
           (inf_lids A) = Inr g"
    and "wf3 m_p" and "wf3 logs_p"
    and "dim0 logs_p = dim0 m_p" and "dim1 logs_p = dim1 m_p" and "dim2 logs_p = dim2 m_p"
    and "randn_like L m_p r1 = (Inr eps, r2)"
    and "z_p = spec_prior_sample L (noise_scale A) m_p eps logs_p"
    and "flow G z_p x_mask g True r2 = (Inr z, r3)"
    and "wf3 z" and "wf3 x_mask"
    and "dim0 x_mask = dim0 z" and "dim1 x_mask = 1" and "dim2 x_mask = dim2 z"
    and "d = slice_time (max_len A) (spec_masked L z x_mask)"
    and "decoder G d g r3 = (Inr wav, r4)"
  shows "inference L G A w = (Inr (squeeze1 wav, None, None), w\<lparr> rng := r4 \<rparr>) \<and>
         dim0 z_p = dim0 m_p \<and> dim1 z_p = dim1 m_p \<and> dim2 z_p = dim2 m_p \<and>
         (\<forall>i j k. i < dim0 m_p \<and> j < dim1 m_p \<and> k < dim2 m_p \<longrightarrow>
            at3 z_p i j k =
              fadd L (at3 m_p i j k)
                (fmul L (fmul L (at3 eps i j k) (fexp L (at3 logs_p i j k))) (noise_scale A))) \<and>
         (max_len A = None \<longrightarrow> d = spec_masked L z x_mask) \<and>
         (\<forall>n. max_len A = Some n \<and> 0 \<le> n \<longrightarrow> dim2 d = min (dim2 z) (nat n)) \<and>
         dim0 d = dim0 z \<and> dim1 d = dim1 z \<and> dim2 d \<le> dim2 z \<and>
         (\<forall>i j k. i < dim0 z \<and> j < dim1 z \<and> k < dim2 d \<longrightarrow>
            at3 d i j k = fmul L (at3 z i j k) (at3 x_mask i 0 k))"
proof -
  have run: "inference L G A w = (Inr (squeeze1 wav, None, None), w\<lparr> rng := r4 \<rparr>)"
    by (rule free_running_run[OF assms(1-9) assms(11)[unfolded assms(10)]
          assms(12-16) assms(18)[unfolded assms(17)]])
  have zp: "dim0 z_p = dim0 m_p \<and> dim1 z_p = dim1 m_p \<and> dim2 z_p = dim2 m_p"
    by (simp add: assms(10) spec_prior_sample_def dims_tabulate3)
  have zpe: "\<forall>i j k. i < dim0 m_p \<and> j < dim1 m_p \<and> k < dim2 m_p \<longrightarrow>
            at3 z_p i j k =
              fadd L (at3 m_p i j k)
                (fmul L (fmul L (at3 eps i j k) (fexp L (at3 logs_p i j k))) (noise_scale A))"
    by (simp add: assms(10) spec_prior_sample_def at3_tabulate3)
  have wm: "wf3 (spec_masked L z x_mask)"
    by (simp add: spec_masked_def wf3_tabulate3)
  have dm: "dim0 (spec_masked L z x_mask) = dim0 z" "dim1 (spec_masked L z x_mask) = dim1 z"
    "dim2 (spec_masked L z x_mask) = dim2 z"
    by (simp_all add: spec_masked_def dims_tabulate3)
  have dd: "dim0 d = dim0 z" "dim1 d = dim1 z" "dim2 d = py_stop (dim2 z) (max_len A)"
    by (simp_all add: assms(17) slice_time_def dm)
  have none: "max_len A = None \<longrightarrow> d = spec_masked L z x_mask"
    using wm by (simp add: assms(17) slice_time_None)
  have some: "\<forall>n. max_len A = Some n \<and> 0 \<le> n \<longrightarrow> dim2 d = min (dim2 z) (nat n)"
    by (simp add: dd py_stop_def)
  have le: "dim2 d \<le> dim2 z" by (simp add: dd py_stop_le)
  have de: "\<forall>i j k. i < dim0 z \<and> j < dim1 z \<and> k < dim2 d \<longrightarrow>
            at3 d i j k = fmul L (at3 z i j k) (at3 x_mask i 0 k)"
  proof (intro allI impI)
    fix i j k assume h: "i < dim0 z \<and> j < dim1 z \<and> k < dim2 d"
    then have k: "k < py_stop (dim2 (spec_masked L z x_mask)) (max_len A)" "k < dim2 z"
      using dd le dm by simp_all
    have "at3 d i j k = at3 (spec_masked L z x_mask) i j k"
      unfolding assms(17) using wm h dm k(1) by (intro at3_slice_time) simp_all
    also have "\<dots> = fmul L (at3 z i j k) (at3 x_mask i 0 k)"
      using h k(2) by (simp add: spec_masked_def at3_tabulate3)
    finally show "at3 d i j k = fmul L (at3 z i j k) (at3 x_mask i 0 k)" .
  qed
  from run zp zpe none some dd(1,2) le de show ?thesis by blast
qed


lemma ex_inf_prior_sample:
  "spec_prior_sample ex_lib 2 ex_inf_m_p ex_inf_eps (const3 1 2 3 0) =
     \<lparr> dim0 = 1, dim1 = 2, dim2 = 3, vals3 = [[[7, 10, 13], [13, 16, 19]]] \<rparr>"
  by (simp add: spec_prior_sample_def tabulate3_def at3_def ex_lib_def ex_inf_m_p_def
      ex_inf_eps_def const3_def numeral_eq_Suc)

lemma ex_inf_masked:
  "slice_time (Some 2) (spec_masked ex_lib ex_inf_z (const3 1 1 3 1)) =
     \<lparr> dim0 = 1, dim1 = 2, dim2 = 2, vals3 = [[[6, 9], [12, 15]]] \<rparr>"
  by (simp add: spec_masked_def tabulate3_def at3_def ex_lib_def ex_inf_z_def const3_def
      slice_time_def py_stop_def numeral_eq_Suc)

lemma ex_inf_run:
  "\<not> use_teacher_forcing ex_inference_args"
  "text_encoder ex_generator (inf_label_xml ex_inference_args)
     (inf_label_xml_lengths ex_inference_args) None (inf_midi_xml ex_inference_args)
     (inf_beat_xml ex_inference_args) (rng ex_world) =
     (Inr (const3 1 2 3 0, ex_inf_m_p, const3 1 2 3 0, const3 1 1 3 1), 0)"
  "global_conditioning ex_lib ex_generator (inf_sids ex_inference_args)
     (map_option unsqueeze_first (inf_spembs ex_inference_args)) (inf_lids ex_inference_args) =
     Inr None"
  "wf3 ex_inf_m_p" "wf3 (const3 1 2 3 (0::int))"
  "dim0 (const3 1 2 3 (0::int)) = dim0 ex_inf_m_p"
  "dim1 (const3 1 2 3 (0::int)) = dim1 ex_inf_m_p"
  "dim2 (const3 1 2 3 (0::int)) = dim2 ex_inf_m_p"
  "randn_like ex_lib ex_inf_m_p 0 = (Inr ex_inf_eps, 6)"
  by (simp_all add: ex_inference_args_def ex_generator_def ex_text_encoder_def ex_world_def
      const3_def ex_inf_m_p_def global_conditioning_def index_embedding_def
      speaker_embedding_def wf3_def randn_like_def ex_lib_def ex_inf_eps_def numeral_eq_Suc
      seq_Inr)

lemma ex_inf_run2:
  "flow ex_generator (spec_prior_sample ex_lib (noise_scale ex_inference_args) ex_inf_m_p
      ex_inf_eps (const3 1 2 3 0)) (const3 1 1 3 1) None True 6 = (Inr ex_inf_z, 6)"
  "wf3 ex_inf_z" "wf3 (const3 1 1 3 (1::int))"
  "dim0 (const3 1 1 3 (1::int)) = dim0 ex_inf_z" "dim1 (const3 1 1 3 (1::int)) = 1"
  "dim2 (const3 1 1 3 (1::int)) = dim2 ex_inf_z"
proof -
  have n: "noise_scale ex_inference_args = 2" by (simp add: ex_inference_args_def)
  show "flow ex_generator (spec_prior_sample ex_lib (noise_scale ex_inference_args) ex_inf_m_p
      ex_inf_eps (const3 1 2 3 0)) (const3 1 1 3 1) None True 6 = (Inr ex_inf_z, 6)"
    unfolding n ex_inf_prior_sample
    by (simp add: ex_generator_def ex_flow_def map3_def ex_inf_z_def)
qed (simp_all add: wf3_def ex_inf_z_def const3_def)

lemma ex_inf_run3:
  "decoder ex_generator (slice_time (max_len ex_inference_args)
      (spec_masked ex_lib ex_inf_z (const3 1 1 3 1))) None 6 = (Inr ex_inf_wav, 6)"
proof -
  have n: "max_len ex_inference_args = Some 2" by (simp add: ex_inference_args_def)
  show ?thesis
    unfolding n ex_inf_masked
    by (simp add: ex_generator_def ex_decoder_def ex_inf_wav_def numeral_eq_Suc)
qed

theorem inference_free_running_witness:
  "\<not> use_teacher_forcing ex_inference_args \<and>
   noise_scale ex_inference_args = 2 \<and> max_len ex_inference_args = Some 2 \<and>
   inference ex_lib ex_generator ex_inference_args ex_world =
     (Inr (T2 \<lparr> rows = 1, cols = 8, vals2 = [[6, 6, 6, 6, 9, 9, 9, 9]] \<rparr>, None, None),
      ex_world\<lparr> rng := 6 \<rparr>) \<and>
   at3 (spec_prior_sample ex_lib 2 ex_inf_m_p ex_inf_eps (const3 1 2 3 0)) 0 1 2 =
     9 + (5 * (0 + 1)) * 2"
proof -
  have n: "noise_scale ex_inference_args = 2" "max_len ex_inference_args = Some 2"
    by (simp_all add: ex_inference_args_def)
  have s: "squeeze1 ex_inf_wav = T2 \<lparr> rows = 1, cols = 8, vals2 = [[6, 6, 6, 6, 9, 9, 9, 9]] \<rparr>"
    by (simp add: squeeze1_def ex_inf_wav_def)
  from inference_free_running[OF ex_inf_run refl ex_inf_run2 refl ex_inf_run3]
  have "inference ex_lib ex_generator ex_inference_args ex_world =
          (Inr (squeeze1 ex_inf_wav, None, None), ex_world\<lparr> rng := 6 \<rparr>)"
    and "\<forall>i j k. i < dim0 ex_inf_m_p \<and> j < dim1 ex_inf_m_p \<and> k < dim2 ex_inf_m_p \<longrightarrow>
            at3 (spec_prior_sample ex_lib (noise_scale ex_inference_args) ex_inf_m_p ex_inf_eps
                  (const3 1 2 3 0)) i j k =
              fadd ex_lib (at3 ex_inf_m_p i j k)
                (fmul ex_lib (fmul ex_lib (at3 ex_inf_eps i j k)
                   (fexp ex_lib (at3 (const3 1 2 3 0) i j k))) (noise_scale ex_inference_args))"
    by blast+
  from this(1) this(2)[rule_format, of 0 1 2] show ?thesis
    using ex_inf_run(1) n s
    by (simp add: ex_inf_m_p_def ex_inf_eps_def const3_def at3_def ex_lib_def)
qed

subsection \<open>Inference with teacher forcing, and the unread arguments\<close>

lemma call_posterior_then_flow:
  "bnd (call (posterior_encoder G f l g)) (\<lambda>(z, m_q, logs_q, y_mask).
     bnd (call (flow G z y_mask g False)) (\<lambda>z_p. k z z_p m_q logs_q y_mask)) =
   bnd (call (posterior_then_flow G f l g)) (\<lambda>(z, z_p, m_q, logs_q, y_mask).
     k z z_p m_q logs_q y_mask)"
  by (rule ext)
     (auto simp: bnd_def call_def posterior_then_flow_def split: sum.splits prod.splits)

lemma forward_networks_posterior:
  "forward_networks L G A (lx', ls', mx', bx') =
     bnd (call (text_encoder G (Some lx') (Some ls') (Some (ds A)) (Some mx') (Some bx')))
       (\<lambda>(x, m_p, logs_p, x_mask).
     bnd (lift (global_conditioning L G (sids A) (spembs A) (lids A))) (\<lambda>g.
     bnd (lift (positional_encoding x)) (\<lambda>_.
     bnd (read_buf (feats_lengths A)) (\<lambda>feats_lengths'.
     bnd (call (posterior_then_flow G (Some (feats A)) (Some feats_lengths') g))
       (\<lambda>(z, z_p, m_q, logs_q, y_mask).
     bnd (call (get_random_segments L z feats_lengths' (self_segment_size G)))
       (\<lambda>(z_segments, z_start_idxs).
     bnd (call (decoder G z_segments g)) (\<lambda>wav.
     ret (wav, z_start_idxs, x_mask, y_mask, [z, z_p, m_p, logs_p, m_q, logs_q]))))))))"
  unfolding forward_networks_def by (simp add: call_posterior_then_flow)

lemma teacher_forcing_posterior_path:
  assumes "use_teacher_forcing A"
  shows "inference L G A =
     bnd (call (text_encoder G (inf_label_xml A) (inf_label_xml_lengths A) None
            (inf_midi_xml A) (inf_beat_xml A))) (\<lambda>(x, m_p, logs_p, x_mask).
     bnd (lift (global_conditioning L G (inf_sids A)
            (map_option unsqueeze_first (inf_spembs A)) (inf_lids A))) (\<lambda>g.
     bnd (call (posterior_then_flow G (inf_feats A) (inf_feats_lengths A) g))
       (\<lambda>(z, z_p, m_q, logs_q, y_mask).
     bnd (lift (broadcast3 (fmul L) z y_mask)) (\<lambda>zm.
     bnd (call (decoder G zm g)) (\<lambda>wav.
     ret (squeeze1 wav, None, None))))))"
  unfolding inference_def using assms by (simp add: call_posterior_then_flow)


lemma segments_unused_in_conditioning:
  "global_conditioning (L\<lparr> get_random_segments := grs \<rparr>) G s e l = global_conditioning L G s e l"
  by (simp add: global_conditioning_def index_embedding_def speaker_embedding_def
      accumulate_def cong: option.case_cong)

lemma segments_unused_in_randn_like:
  "randn_like (L\<lparr> get_random_segments := grs \<rparr>) = randn_like L"
  by (rule ext, rule ext) (simp add: randn_like_def)

lemma segments_unused_in_inference:
  "inference (L\<lparr> get_random_segments := grs \<rparr>) G A = inference L G A"
  by (simp add: inference_def segments_unused_in_conditioning segments_unused_in_randn_like
      cong: if_cong)

text \<open>
  Claim C6. With teacher forcing on, the features go through the posterior encoder
  and the flow (forwards) as they do in the training pass: both passes run the same
  \<open>posterior_then_flow\<close> on features, lengths and conditioning. The decoder is then
  given the whole posterior latent \<open>z\<close> times the feature mask, entry by entry, on all
  frames of \<open>z\<close>; \<open>get_random_segments\<close> has no part in the result.
\<close>

theorem inference_teacher_forcing:
  assumes "use_teacher_forcing A"
    and "text_encoder G (inf_label_xml A) (inf_label_xml_lengths A) None (inf_midi_xml A)
           (inf_beat_xml A) (rng w) = (Inr (x, m_p, logs_p, x_mask), r1)"
    and "global_conditioning L G (inf_sids A) (map_option unsqueeze_first (inf_spembs A))
           (inf_lids A) = Inr g"
    and "posterior_then_flow G (inf_feats A) (inf_feats_lengths A) g r1 =
           (Inr (z, z_p, m_q, logs_q, y_mask), r3)"
    and "wf3 z" and "wf3 y_mask"
    and "dim0 y_mask = dim0 z" and "dim1 y_mask = 1" and "dim2 y_mask = dim2 z"
    and "d = spec_masked L z y_mask"
    and "decoder G d g r3 = (Inr wav, r4)"
  shows "inference L G A w = (Inr (squeeze1 wav, None, None), w\<lparr> rng := r4 \<rparr>) \<and>
         dim0 d = dim0 z \<and> dim1 d = dim1 z \<and> dim2 d = dim2 z \<and>
         (\<forall>i j k. i < dim0 z \<and> j < dim1 z \<and> k < dim2 z \<longrightarrow>
            at3 d i j k = fmul L (at3 z i j k) (at3 y_mask i 0 k)) \<and>
         inference (L\<lparr> get_random_segments := grs \<rparr>) G A w = inference L G A w \<and>
         forward_networks L G A' (lx', ls', mx', bx') =
           bnd (call (text_encoder G (Some lx') (Some ls') (Some (ds A')) (Some mx') (Some bx')))
             (\<lambda>(x, m_p, logs_p, x_mask).
           bnd (lift (global_conditioning L G (sids A') (spembs A') (lids A'))) (\<lambda>g.
           bnd (lift (positional_encoding x)) (\<lambda>_.
           bnd (read_buf (feats_lengths A')) (\<lambda>feats_lengths'.
           bnd (call (posterior_then_flow G (Some (feats A')) (Some feats_lengths') g))
             (\<lambda>(z, z_p, m_q, logs_q, y_mask).
           bnd (call (get_random_segments L z feats_lengths' (self_segment_size G)))
             (\<lambda>(z_segments, z_start_idxs).
           bnd (call (decoder G z_segments g)) (\<lambda>wav.
           ret (wav, z_start_idxs, x_mask, y_mask, [z, z_p, m_p, logs_p, m_q, logs_q]))))))))"
proof -
  have m: "broadcast3 (fmul L) z y_mask = Inr d"
    unfolding assms(10) spec_masked_def by (rule broadcast3_mask[OF assms(5-9)])
  have run: "inference L G A w = (Inr (squeeze1 wav, None, None), w\<lparr> rng := r4 \<rparr>)"
    unfolding teacher_forcing_posterior_path[OF assms(1)]
    using assms(2,3,4,11) m
    by (simp add: bnd_def call_def lift_def ret_def)
  have dims: "dim0 d = dim0 z \<and> dim1 d = dim1 z \<and> dim2 d = dim2 z"
    by (simp add: assms(10) spec_masked_def dims_tabulate3)
  have ent: "\<forall>i j k. i < dim0 z \<and> j < dim1 z \<and> k < dim2 z \<longrightarrow>
            at3 d i j k = fmul L (at3 z i j k) (at3 y_mask i 0 k)"
    by (simp add: assms(10) spec_masked_def at3_tabulate3)
  from run dims ent show ?thesis
    by (simp add: segments_unused_in_inference forward_networks_posterior)
qed

lemma ex_tf_run:
  "use_teacher_forcing (ex_inference_args\<lparr> use_teacher_forcing := True \<rparr>)"
  "text_encoder ex_generator (inf_label_xml (ex_inference_args\<lparr> use_teacher_forcing := True \<rparr>))
     (inf_label_xml_lengths (ex_inference_args\<lparr> use_teacher_forcing := True \<rparr>)) None
     (inf_midi_xml (ex_inference_args\<lparr> use_teacher_forcing := True \<rparr>))
     (inf_beat_xml (ex_inference_args\<lparr> use_teacher_forcing := True \<rparr>)) (rng ex_world) =
     (Inr (const3 1 2 3 0, ex_inf_m_p, const3 1 2 3 0, const3 1 1 3 1), 0)"
  "global_conditioning ex_lib ex_generator
     (inf_sids (ex_inference_args\<lparr> use_teacher_forcing := True \<rparr>))
     (map_option unsqueeze_first (inf_spembs (ex_inference_args\<lparr> use_teacher_forcing := True \<rparr>)))
     (inf_lids (ex_inference_args\<lparr> use_teacher_forcing := True \<rparr>)) = Inr None"
  "posterior_then_flow ex_generator (inf_feats (ex_inference_args\<lparr> use_teacher_forcing := True \<rparr>))
     (inf_feats_lengths (ex_inference_args\<lparr> use_teacher_forcing := True \<rparr>)) None 0 =
     (Inr (ex_tf_z, map3 (\<lambda>v. v + 1) ex_tf_z, const3 1 2 5 0, const3 1 2 5 0, const3 1 1 5 1), 1)"
  "wf3 ex_tf_z" "wf3 (const3 1 1 5 (1::int))"
  "dim0 (const3 1 1 5 (1::int)) = dim0 ex_tf_z" "dim1 (const3 1 1 5 (1::int)) = 1"
  "dim2 (const3 1 1 5 (1::int)) = dim2 ex_tf_z"
  by (simp_all add: ex_inference_args_def ex_generator_def ex_text_encoder_def ex_world_def
      const3_def ex_inf_m_p_def global_conditioning_def index_embedding_def
      speaker_embedding_def wf3_def ex_tf_z_def posterior_then_flow_def
      ex_posterior_encoder_def ex_flow_def seq_Inr numeral_eq_Suc)

lemma ex_tf_masked: "spec_masked ex_lib ex_tf_z (const3 1 1 5 1) = ex_tf_z"
  by (simp add: spec_masked_def tabulate3_def at3_def ex_lib_def ex_tf_z_def const3_def
      numeral_eq_Suc)

lemma ex_tf_decoder: "decoder ex_generator ex_tf_z None 1 = (Inr ex_tf_wav, 1)"
  by (simp add: ex_generator_def ex_decoder_def ex_tf_z_def ex_tf_wav_def numeral_eq_Suc)

theorem inference_teacher_forcing_witness:
  "use_teacher_forcing (ex_inference_args\<lparr> use_teacher_forcing := True \<rparr>) \<and>
   inference ex_lib ex_generator (ex_inference_args\<lparr> use_teacher_forcing := True \<rparr>) ex_world =
     (Inr (T2 \<lparr> rows = 1, cols = 20,
                vals2 = [[1, 1, 1, 1, 2, 2, 2, 2, 3, 3, 3, 3, 4, 4, 4, 4, 5, 5, 5, 5]] \<rparr>,
           None, None),
      ex_world\<lparr> rng := 1 \<rparr>) \<and>
   dim2 (spec_masked ex_lib ex_tf_z (const3 1 1 5 1)) = dim2 ex_tf_z"
proof -
  have s: "squeeze1 ex_tf_wav = T2 \<lparr> rows = 1, cols = 20,
                vals2 = [[1, 1, 1, 1, 2, 2, 2, 2, 3, 3, 3, 3, 4, 4, 4, 4, 5, 5, 5, 5]] \<rparr>"
    by (simp add: squeeze1_def ex_tf_wav_def)
  from inference_teacher_forcing[OF ex_tf_run ex_tf_masked[symmetric] ex_tf_decoder,
      THEN conjunct1]
  show ?thesis
    using ex_tf_run(1) s ex_tf_masked by simp
qed

text \<open>
  Claim C10. \<open>dur\<close>, \<open>noise_scale_dur\<close> and \<open>alpha\<close> are never read: two calls that
  differ in nothing else and start from the same random state do the same, in value
  and in final state. Whenever \<open>inference\<close> returns, its second and third values are
  \<open>None\<close>.
\<close>

theorem inference_ignores_duration_controls:
  "inference L G (A\<lparr> inf_dur := d, noise_scale_dur := n, alpha := a \<rparr>) w = inference L G A w \<and>
   (\<forall>wav attn durs w'. inference L G A w = (Inr (wav, attn, durs), w') \<longrightarrow>
      attn = None \<and> durs = None)"
proof -
  have 1: "inference L G (A\<lparr> inf_dur := d, noise_scale_dur := n, alpha := a \<rparr>) w =
           inference L G A w"
    by (simp add: inference_def cong: if_cong)
  have 2: "\<forall>wav attn durs w'. inference L G A w = (Inr (wav, attn, durs), w') \<longrightarrow>
      attn = None \<and> durs = None"
    unfolding inference_def bnd_def call_def lift_def ret_def
    by (auto split: sum.splits prod.splits if_splits)
  from 1 2 show ?thesis by simp
qed

lemma ex_inference:
  "inference ex_lib ex_generator ex_inference_args ex_world =
     (Inr (T2 \<lparr> rows = 1, cols = 8, vals2 = [[6, 6, 6, 6, 9, 9, 9, 9]] \<rparr>, None, None),
      ex_world\<lparr> rng := 6 \<rparr>)"
proof -
  have s: "squeeze1 ex_inf_wav = T2 \<lparr> rows = 1, cols = 8, vals2 = [[6, 6, 6, 6, 9, 9, 9, 9]] \<rparr>"
    by (simp add: squeeze1_def ex_inf_wav_def)
  from free_running_run[OF ex_inf_run ex_inf_run2 ex_inf_run3]
  show ?thesis by (simp add: s)
qed

theorem inference_ignores_duration_controls_witness:
  "inference ex_lib ex_generator
     (ex_inference_args\<lparr> inf_dur := Some ex_inf_z, noise_scale_dur := 7, alpha := 3 \<rparr>) ex_world =
     (Inr (T2 \<lparr> rows = 1, cols = 8, vals2 = [[6, 6, 6, 6, 9, 9, 9, 9]] \<rparr>, None, None),
      ex_world\<lparr> rng := 6 \<rparr>) \<and>
   inference ex_lib ex_generator ex_inference_args ex_world =
     (Inr (T2 \<lparr> rows = 1, cols = 8, vals2 = [[6, 6, 6, 6, 9, 9, 9, 9]] \<rparr>, None, None),
      ex_world\<lparr> rng := 6 \<rparr>)"
  using inference_ignores_duration_controls[where L = ex_lib and G = ex_generator
      and A = ex_inference_args and d = "Some ex_inf_z" and n = 7 and a = 3 and w = ex_world]
    ex_inference
  by simp

subsection \<open>The path generator\<close>

lemma length_cumsum_from: "length (cumsum_from acc xs) = length xs"
  by (induction xs arbitrary: acc) simp_all

lemma cumsum_from_nth:
  "i < length xs \<Longrightarrow> cumsum_from acc xs ! i = acc + sum_list (take (Suc i) xs)"
proof (induction xs arbitrary: acc i)
  case Nil
  then show ?case by simp
next
  case (Cons x xs)
  show ?case
  proof (cases i)
    case 0
    then show ?thesis by simp
  next
    case (Suc k)
    then have "k < length xs" using Cons.prems by simp
    from Cons.IH[OF this, of "acc + x"] show ?thesis using Suc by simp
  qed
qed

lemma length_cumsum: "length (cumsum xs) = length xs"
  by (simp add: cumsum_def length_cumsum_from)

lemma cumsum_nth: "i < length xs \<Longrightarrow> cumsum xs ! i = sum_list (take (Suc i) xs)"
  by (simp add: cumsum_def cumsum_from_nth)

lemma sum_list_nonneg_int: "list_all (\<lambda>v. 0 \<le> v) (xs :: int list) \<Longrightarrow> 0 \<le> sum_list xs"
  by (induction xs) simp_all

lemma sum_list_take_mono:
  assumes "list_all (\<lambda>v. 0 \<le> v) (xs :: int list)" "i \<le> k"
  shows "sum_list (take i xs) \<le> sum_list (take k xs)"
proof -
  have "take k xs = take i xs @ take (k - i) (drop i xs)"
    using assms(2) by (metis le_add_diff_inverse take_add)
  moreover have "list_all (\<lambda>v. 0 \<le> v) (take (k - i) (drop i xs))"
    using assms(1) by (auto simp: list_all_iff dest: in_set_takeD in_set_dropD)
  ultimately show ?thesis
    using sum_list_nonneg_int[of "take (k - i) (drop i xs)"] by simp
qed

lemma sum_list_take_le:
  assumes "list_all (\<lambda>v. 0 \<le> v) (xs :: int list)"
  shows "sum_list (take i xs) \<le> sum_list xs"
  using sum_list_take_mono[OF assms, of i "max i (length xs)"] by simp

lemma length_below: "length (below t_y c) = t_y"
  by (simp add: below_def)

lemma below_nth: "j < t_y \<Longrightarrow> below t_y c ! j = (if int j < c then 1 else 0)"
  by (simp add: below_def)

lemma first_difference_nth:
  assumes "i < length p"
  shows "first_difference t_y p ! i = map2 (-) (p ! i) ((replicate t_y 0 # p) ! i)"
proof -
  define q where "q = butlast (replicate t_y 0 # p)"
  have l: "length q = length p" unfolding q_def length_butlast by simp
  have "i < length (butlast (replicate t_y 0 # p))"
    using assms unfolding length_butlast by simp
  then have n: "q ! i = (replicate t_y 0 # p) ! i"
    unfolding q_def by (rule nth_butlast)
  have "first_difference t_y p = map2 (map2 (-)) p q"
    by (simp only: first_difference_def q_def)
  then show ?thesis
    using assms l n by simp
qed

lemma length_first_difference: "length (first_difference t_y p) = length p"
  by (simp add: first_difference_def)

lemma path_row_blocks:
  assumes nn: "list_all (\<lambda>v. 0 \<le> v) d" and i: "i < length d" and fit: "sum_list d \<le> int t_y"
  shows "first_difference t_y (map (below t_y) (cumsum d)) ! i =
           replicate (nat (sum_list (take i d))) 0 @ replicate (nat (d ! i)) 1 @
           replicate (t_y - nat (sum_list (take (Suc i) d))) 0"
proof -
  let ?p = "map (below t_y) (cumsum d)"
  let ?S = "\<lambda>k. sum_list (take k d)"
  have S0: "0 \<le> ?S i" using nn by (intro sum_list_nonneg_int) (auto simp: list_all_iff dest: in_set_takeD)
  have di: "0 \<le> d ! i" using nn i by (simp add: list_all_length)
  have SS: "?S (Suc i) = ?S i + d ! i" using i by (simp add: take_Suc_conv_app_nth)
  have St: "?S (Suc i) \<le> int t_y" using sum_list_take_le[OF nn, of "Suc i"] fit by simp
  have prev: "(replicate t_y 0 # ?p) ! i = below t_y (?S i)"
  proof (cases i)
    case 0
    then show ?thesis by (simp add: below_def map_replicate_const)
  next
    case (Suc k)
    then have "k < length d" using i by simp
    then show ?thesis using Suc by (simp add: length_cumsum cumsum_nth)
  qed
  have cur: "?p ! i = below t_y (?S (Suc i))"
    using i by (simp add: length_cumsum cumsum_nth)
  have row: "first_difference t_y ?p ! i = map2 (-) (below t_y (?S (Suc i))) (below t_y (?S i))"
    using i by (simp add: first_difference_nth length_cumsum prev cur)
  show ?thesis
    unfolding row
  proof (rule nth_equalityI)
    show "length (map2 (-) (below t_y (?S (Suc i))) (below t_y (?S i))) =
          length (replicate (nat (?S i)) 0 @ replicate (nat (d ! i)) 1 @
                  replicate (t_y - nat (?S (Suc i))) (0::int))"
      using S0 di SS St by (simp add: length_below)
  next
    fix j assume "j < length (map2 (-) (below t_y (?S (Suc i))) (below t_y (?S i)))"
    then have j: "j < t_y" by (simp add: length_below)
    have "map2 (-) (below t_y (?S (Suc i))) (below t_y (?S i)) ! j =
          (if int j < ?S (Suc i) then 1 else 0) - (if int j < ?S i then 1 else 0)"
      using j by (simp add: length_below below_nth)
    also have "\<dots> = (replicate (nat (?S i)) 0 @ replicate (nat (d ! i)) 1 @
                  replicate (t_y - nat (?S (Suc i))) (0::int)) ! j"
      using S0 di SS St j by (auto simp: nth_append)
    finally show "map2 (-) (below t_y (?S (Suc i))) (below t_y (?S i)) ! j =
          (replicate (nat (?S i)) 0 @ replicate (nat (d ! i)) 1 @
                  replicate (t_y - nat (?S (Suc i))) (0::int)) ! j" .
  qed
qed

lemma chunk_concat:
  "length xss = b \<Longrightarrow> list_all (\<lambda>xs. length xs = n) xss \<Longrightarrow> chunk n b (concat xss) = xss"
  by (induction xss arbitrary: b) auto

lemma path_before_mask_rows:
  assumes "wf2 dur" "rows dur = b" "cols dur = t_x"
  shows "path_before_mask dur b t_y t_x =
           Inr (map (\<lambda>d. first_difference t_y (map (below t_y) (cumsum d))) (vals2 dur))"
proof -
  let ?rows = "map (\<lambda>d. map (below t_y) (cumsum d)) (vals2 dur)"
  have "map (below t_y) (concat (map cumsum (vals2 dur))) = concat ?rows"
    by (simp add: map_concat comp_def)
  moreover have "chunk t_x b (concat ?rows) = ?rows"
    using assms by (intro chunk_concat) (auto simp: wf2_def list_all_iff length_cumsum)
  ultimately show ?thesis
    using assms by (simp add: path_before_mask_def Let_def comp_def)
qed


lemma path_entry:
  assumes nn: "list_all (\<lambda>v. 0 \<le> v) d" and i: "i < length d" and fit: "sum_list d \<le> int t_y"
    and j: "j < t_y"
  shows "first_difference t_y (map (below t_y) (cumsum d)) ! i ! j =
           (if sum_list (take i d) \<le> int j \<and> int j < sum_list (take (Suc i) d) then 1 else 0)"
proof -
  let ?S = "\<lambda>k. sum_list (take k d)"
  have S0: "0 \<le> ?S i"
    using nn by (intro sum_list_nonneg_int) (auto simp: list_all_iff dest: in_set_takeD)
  have di: "0 \<le> d ! i" using nn i by (simp add: list_all_length)
  have SS: "?S (Suc i) = ?S i + d ! i" using i by (simp add: take_Suc_conv_app_nth)
  have St: "?S (Suc i) \<le> int t_y" using sum_list_take_le[OF nn, of "Suc i"] fit by simp
  show ?thesis
    unfolding path_row_blocks[OF nn i fit]
    using S0 di SS St j by (auto simp: nth_append)
qed

lemma path_row_props:
  assumes nn: "list_all (\<lambda>v. 0 \<le> v) d" and i: "i < length d" and fit: "sum_list d \<le> int t_y"
  shows "length (first_difference t_y (map (below t_y) (cumsum d)) ! i) = t_y \<and>
         list_all (\<lambda>v. v = 0 \<or> v = 1) (first_difference t_y (map (below t_y) (cumsum d)) ! i) \<and>
         ones (first_difference t_y (map (below t_y) (cumsum d)) ! i) = nat (d ! i)"
proof -
  let ?S = "\<lambda>k. sum_list (take k d)"
  have S0: "0 \<le> ?S i"
    using nn by (intro sum_list_nonneg_int) (auto simp: list_all_iff dest: in_set_takeD)
  have di: "0 \<le> d ! i" using nn i by (simp add: list_all_length)
  have SS: "?S (Suc i) = ?S i + d ! i" using i by (simp add: take_Suc_conv_app_nth)
  have St: "?S (Suc i) \<le> int t_y" using sum_list_take_le[OF nn, of "Suc i"] fit by simp
  let ?r = "replicate (nat (?S i)) 0 @ replicate (nat (d ! i)) 1 @
            replicate (t_y - nat (?S (Suc i))) (0::int)"
  have n: "nat (?S (Suc i)) = nat (?S i) + nat (d ! i)" "nat (?S (Suc i)) \<le> t_y"
    using S0 di SS St by (simp_all add: nat_add_distrib nat_le_iff)
  have 1: "length ?r = t_y" using n by simp
  have 2: "list_all (\<lambda>v. v = 0 \<or> v = 1) ?r" by (auto simp: list_all_iff)
  have 3: "ones ?r = nat (d ! i)" by (simp add: ones_def)
  show ?thesis
    unfolding path_row_blocks[OF nn i fit] using 1 2 3 by blast
qed

lemma path_owner_unique:
  assumes nn: "list_all (\<lambda>v. 0 \<le> v) d" and fit: "sum_list d \<le> int t_y"
    and "i < length d" "i' < length d" "j < t_y" "j' < t_y" "j \<le> j'"
    and "first_difference t_y (map (below t_y) (cumsum d)) ! i ! j = 1"
    and "first_difference t_y (map (below t_y) (cumsum d)) ! i' ! j' = 1"
  shows "i \<le> i'"
proof (rule ccontr)
  assume "\<not> i \<le> i'"
  then have "Suc i' \<le> i" by simp
  then have m: "sum_list (take (Suc i') d) \<le> sum_list (take i d)"
    by (rule sum_list_take_mono[OF nn])
  have a: "sum_list (take i d) \<le> int j"
    using assms(8) path_entry[OF nn assms(3) fit assms(5)] by (simp split: if_splits)
  have b: "int j' < sum_list (take (Suc i') d)"
    using assms(9) path_entry[OF nn assms(4) fit assms(6)] by (simp split: if_splits)
  from m a b assms(7) show False by simp
qed

text \<open>
  Claim C7. For durations that are not negative and whose sum per example is at most
  \<open>t_y\<close>, the path before the mask is a \<open>(b, t_x, t_y)\<close> tensor of zeros and ones in
  which row \<open>i\<close> of an example holds exactly \<open>d[i]\<close> ones, no feature column holds two
  ones, and the encoder index that owns a feature position does not decrease along
  the feature axis.
\<close>

theorem generate_path_rows_and_columns:
  assumes "wf2 dur" and "rows dur = b" and "cols dur = t_x"
    and "list_all (list_all (\<lambda>v. 0 \<le> v)) (vals2 dur)"
    and "list_all (\<lambda>d. sum_list d \<le> int t_y) (vals2 dur)"
  shows "\<exists>path. path_before_mask dur b t_y t_x = Inr path \<and> length path = b \<and>
      (\<forall>n<b. length (path ! n) = t_x \<and>
         (\<forall>i<t_x. length (path ! n ! i) = t_y \<and>
                  list_all (\<lambda>v. v = 0 \<or> v = 1) (path ! n ! i) \<and>
                  ones (path ! n ! i) = nat (vals2 dur ! n ! i)) \<and>
         (\<forall>j<t_y. \<forall>i<t_x. \<forall>i'<t_x.
             path ! n ! i ! j = 1 \<and> path ! n ! i' ! j = 1 \<longrightarrow> i = i') \<and>
         (\<forall>j<t_y. \<forall>j'<t_y. \<forall>i<t_x. \<forall>i'<t_x.
             j \<le> j' \<and> path ! n ! i ! j = 1 \<and> path ! n ! i' ! j' = 1 \<longrightarrow> i \<le> i'))"
proof -
  let ?row = "\<lambda>d. first_difference t_y (map (below t_y) (cumsum d))"
  let ?path = "map ?row (vals2 dur)"
  have len: "length (vals2 dur) = b" using assms(1,2) by (simp add: wf2_def)
  have props: "length (?path ! n) = t_x \<and>
         (\<forall>i<t_x. length (?path ! n ! i) = t_y \<and>
                  list_all (\<lambda>v. v = 0 \<or> v = 1) (?path ! n ! i) \<and>
                  ones (?path ! n ! i) = nat (vals2 dur ! n ! i)) \<and>
         (\<forall>j<t_y. \<forall>i<t_x. \<forall>i'<t_x.
             ?path ! n ! i ! j = 1 \<and> ?path ! n ! i' ! j = 1 \<longrightarrow> i = i') \<and>
         (\<forall>j<t_y. \<forall>j'<t_y. \<forall>i<t_x. \<forall>i'<t_x.
             j \<le> j' \<and> ?path ! n ! i ! j = 1 \<and> ?path ! n ! i' ! j' = 1 \<longrightarrow> i \<le> i')"
    if n: "n < b" for n
  proof -
    define d where "d = vals2 dur ! n"
    have ld: "length d = t_x"
      using assms(1,3) n len by (simp add: d_def wf2_def list_all_length)
    have nn: "list_all (\<lambda>v. 0 \<le> v) d"
      using assms(4) n len by (simp add: d_def list_all_length)
    have fit: "sum_list d \<le> int t_y"
      using assms(5) n len by (simp add: d_def list_all_length)
    have pn: "?path ! n = ?row d" using n len by (simp add: d_def)
    have 1: "length (?row d) = t_x"
      by (simp add: length_first_difference length_cumsum ld)
    have 2: "\<forall>i<t_x. length (?row d ! i) = t_y \<and>
                  list_all (\<lambda>v. v = 0 \<or> v = 1) (?row d ! i) \<and>
                  ones (?row d ! i) = nat (d ! i)"
      using path_row_props[OF nn _ fit] ld by simp
    have 4: "\<forall>j<t_y. \<forall>j'<t_y. \<forall>i<t_x. \<forall>i'<t_x.
             j \<le> j' \<and> ?row d ! i ! j = 1 \<and> ?row d ! i' ! j' = 1 \<longrightarrow> i \<le> i'"
      using path_owner_unique[OF nn fit] ld by blast
    have 3: "\<forall>j<t_y. \<forall>i<t_x. \<forall>i'<t_x.
             ?row d ! i ! j = 1 \<and> ?row d ! i' ! j = 1 \<longrightarrow> i = i'"
    proof (intro allI impI)
      fix j i i' assume h: "j < t_y" "i < t_x" "i' < t_x"
        "?row d ! i ! j = 1 \<and> ?row d ! i' ! j = 1"
      have "i \<le> i'" using 4 h by blast
      moreover have "i' \<le> i" using 4 h by blast
      ultimately show "i = i'" by simp
    qed
    show ?thesis
      unfolding pn using 1 2 3 4 by (simp add: d_def)
  qed
  have "path_before_mask dur b t_y t_x = Inr ?path"
    by (rule path_before_mask_rows[OF assms(1-3)])
  moreover have "length ?path = b" using len by simp
  ultimately show ?thesis using props by blast
qed

lemma ex_path:
  "path_before_mask ex_dur 1 5 3 = Inr [[[1, 1, 0, 0, 0], [0, 0, 1, 1, 0], [0, 0, 0, 0, 1]]]"
  by (simp add: path_before_mask_def ex_dur_def cumsum_def below_def first_difference_def
      numeral_eq_Suc)

theorem generate_path_rows_and_columns_witness:
  "wf2 ex_dur \<and> rows ex_dur = 1 \<and> cols ex_dur = 3 \<and>
   path_before_mask ex_dur 1 5 3 = Inr [[[1, 1, 0, 0, 0], [0, 0, 1, 1, 0], [0, 0, 0, 0, 1]]] \<and>
   ones [0, 0, 1, 1, 0] = nat (vals2 ex_dur ! 0 ! 1)"
proof -
  have h: "wf2 ex_dur" "rows ex_dur = 1" "cols ex_dur = 3"
    "list_all (list_all (\<lambda>v. 0 \<le> v)) (vals2 ex_dur)"
    "list_all (\<lambda>d. sum_list d \<le> int 5) (vals2 ex_dur)"
    by (simp_all add: wf2_def ex_dur_def)
  from generate_path_rows_and_columns[OF h] ex_path
  have "ones ([[[1, 1, 0, 0, 0], [0, 0, 1, 1, 0], [0, 0, 0, 0, 1]]] ! 0 ! 1) =
          nat (vals2 ex_dur ! 0 ! 1)"
    by force
  then show ?thesis using h(1-3) ex_path by simp
qed

end
